theory Spec2Isabelle
  imports Main "HOL-Library.Word"
begin

section \<open>Data model\<close>

text \<open>
  The payment-channel engine of starlight (package \<^verbatim>\<open>fsm\<close>): the inbound-message handlers
  of \<^verbatim>\<open>starlight/fsm/msg.go\<close> and the message constructors of the second source file.
  Go's fixed-width integers are words: \<^verbatim>\<open>xlm.Amount\<close>, \<^verbatim>\<open>time.Duration\<close> and
  \<^verbatim>\<open>xdr.SequenceNumber\<close> are \<^verbatim>\<open>int64\<close> (arithmetic wraps, comparisons read the
  word with \<open>sint\<close>), round and message numbers are \<^verbatim>\<open>uint64\<close>.
  A \<^verbatim>\<open>time.Time\<close> is an instant counted in nanoseconds (an \<open>int\<close>); \<^verbatim>\<open>Add\<close> moves
  it by the signed value of the duration.
\<close>

type_synonym bytes = "8 word list"
type_synonym Amount = "64 word"
type_synonym Duration = "64 word"
type_synonym SequenceNumber = "64 word"
type_synonym Time = int
type_synonym AccountID = string
type_synonym KP = string
type_synonym Tx = bytes

definition version :: int where
  "version = 2"

definition Add :: "Time \<Rightarrow> Duration \<Rightarrow> Time" where
  "Add t d = t + sint d"

definition After :: "Time \<Rightarrow> Time \<Rightarrow> bool" where
  "After t s = (s < t)"

definition Before :: "Time \<Rightarrow> Time \<Rightarrow> bool" where
  "Before t s = (t < s)"

datatype Role = Guest | Host

datatype State =
    Start | SettingUp | ChannelProposed | AwaitingFunding | AwaitingCleanup | Funded
  | Open | PaymentProposed | PaymentAccepted | AwaitingPaymentMerge | AwaitingClose
  | AwaitingSettlementMintime | AwaitingSettlement | Closed

text \<open>
  \<^verbatim>\<open>xdr.DecoratedSignature\<close>: a four-byte hint and the signature bytes, a slice that
  may be \<^verbatim>\<open>nil\<close> (\<open>None\<close>). \<^verbatim>\<open>xdr.TransactionEnvelope\<close>: a transaction and its
  signatures.
\<close>

record DecoratedSignature =
  Hint :: "32 word"
  Signature :: "bytes option"

definition zeroSig :: DecoratedSignature where
  "zeroSig = \<lparr>Hint = 0, Signature = None\<rparr>"

record TransactionEnvelope =
  Tx :: Tx
  Signatures :: "DecoratedSignature list"

definition zeroEnvelope :: TransactionEnvelope where
  "zeroEnvelope = \<lparr>Tx = [], Signatures = []\<rparr>"

text \<open>
  The errors of the package. \<^verbatim>\<open>errors.Wrap(err, "...")\<close> keeps its cause under a
  message; \<^verbatim>\<open>errors.Wrap(ErrUnexpectedState, u.C.State)\<close> wraps with the state.
  \<open>External\<close> stands for the errors of the collaborators (key parsing, transaction
  building, signature verification, signing).
\<close>

datatype error =
    ErrUnexpectedState
  | ErrChannelExists
  | ErrUnusedSettleWithGuestSig
  | errNoSeed
  | External string
  | Wrap error string
  | WrapState error State

text \<open>
  What a call comes back with: \<^verbatim>\<open>nil\<close> (\<open>Ok\<close>), an error, or a run-time panic (a \<^verbatim>\<open>nil\<close>
  pointer dereferenced).
\<close>

datatype ret = Ok | Err error | Panic

subsection \<open>Messages (msg.go, lines 19-95)\<close>

record ChannelProposeMsg =
  HostAcct :: AccountID
  GuestAcct :: AccountID
  HostRatchetAcct :: AccountID
  GuestRatchetAcct :: AccountID
  MaxRoundDuration :: Duration
  FinalityDelay :: Duration
  BaseSequenceNumber :: SequenceNumber
  HostAmount :: Amount
  Feerate :: Amount
  FundingTime :: Time

record ChannelAcceptMsg =
  GuestRatchetRound1Sig :: DecoratedSignature
  GuestSettleOnlyWithHostSig :: DecoratedSignature

record PaymentProposeMsg =
  RoundNumber :: "64 word"
  PaymentTime :: Time
  PaymentAmount :: Amount
  SenderSettleWithGuestSig :: DecoratedSignature
  SenderSettleWithHostSig :: DecoratedSignature

record PaymentAcceptMsg =
  RoundNumber :: "64 word"
  RecipientRatchetSig :: DecoratedSignature
  RecipientSettleWithGuestSig :: "DecoratedSignature option"
  RecipientSettleWithHostSig :: DecoratedSignature

record PaymentCompleteMsg =
  RoundNumber :: "64 word"
  SenderRatchetSig :: DecoratedSignature

record CloseMsg =
  CooperativeCloseSig :: DecoratedSignature

text \<open>The six submessages are pointers: \<open>None\<close> is \<^verbatim>\<open>nil\<close>.\<close>

record Message =
  ChannelID :: string
  MsgNum :: "64 word"
  Version :: int
  ChannelProposeMsg :: "ChannelProposeMsg option"
  ChannelAcceptMsg :: "ChannelAcceptMsg option"
  PaymentProposeMsg :: "PaymentProposeMsg option"
  PaymentAcceptMsg :: "PaymentAcceptMsg option"
  PaymentCompleteMsg :: "PaymentCompleteMsg option"
  CloseMsg :: "CloseMsg option"
  Signature :: "bytes option"

subsection \<open>The channel\<close>

text \<open>
  Modelled from the spec: the declaration of \<^verbatim>\<open>Channel\<close> is not among the source files.
  The record has the fields of the spec's data model (section 3.1), under the names and
  with the types the two source files read and write them with; \<open>CurrentRatchetTx\<close> is the
  spec's stored ratchet transaction. The two settle-with-guest envelopes are pointers
  (no such transaction exists while the guest's balance is 0).
\<close>

record Channel =
  ID :: string
  Role :: Role
  State :: State
  HostAmount :: Amount
  GuestAmount :: Amount
  ChannelFeerate :: Amount
  MaxRoundDuration :: Duration
  FinalityDelay :: Duration
  FundingTime :: Time
  PaymentTime :: Time
  PendingPaymentTime :: Time
  HostAcct :: AccountID
  GuestAcct :: AccountID
  EscrowAcct :: AccountID
  HostRatchetAcct :: AccountID
  GuestRatchetAcct :: AccountID
  RoundNumber :: "64 word"
  BaseSequenceNumber :: SequenceNumber
  HostRatchetAcctSeqNum :: SequenceNumber
  GuestRatchetAcctSeqNum :: SequenceNumber
  FundingTxSeqnum :: SequenceNumber
  KeyIndex :: "32 word"
  Passphrase :: string
  CounterpartyAddress :: string
  PendingAmountSent :: Amount
  PendingAmountReceived :: Amount
  CurrentRatchetTx :: TransactionEnvelope
  CurrentSettleWithGuestTx :: "TransactionEnvelope option"
  CurrentSettleWithHostTx :: TransactionEnvelope
  CounterpartyLatestSettleWithGuestTx :: "TransactionEnvelope option"
  CounterpartyLatestSettleWithHostTx :: TransactionEnvelope
  CounterpartyCoopCloseSig :: DecoratedSignature
  LastMsgIndex :: "64 word"


text \<open>
  The zero \<^verbatim>\<open>Channel{}\<close>. The zero \<open>State\<close> and \<open>Role\<close> are taken to be the first
  constants of their lists; every handler that builds a fresh channel sets both.
\<close>

definition zeroChannel :: Channel where
  "zeroChannel =
    \<lparr>ID = [], Role = Guest, State = Start, HostAmount = 0, GuestAmount = 0,
     ChannelFeerate = 0, MaxRoundDuration = 0, FinalityDelay = 0, FundingTime = 0,
     PaymentTime = 0, PendingPaymentTime = 0, HostAcct = [], GuestAcct = [],
     EscrowAcct = [], HostRatchetAcct = [], GuestRatchetAcct = [], RoundNumber = 0,
     BaseSequenceNumber = 0, HostRatchetAcctSeqNum = 0, GuestRatchetAcctSeqNum = 0,
     FundingTxSeqnum = 0, KeyIndex = 0, Passphrase = [], CounterpartyAddress = [],
     PendingAmountSent = 0, PendingAmountReceived = 0, CurrentRatchetTx = zeroEnvelope,
     CurrentSettleWithGuestTx = None, CurrentSettleWithHostTx = zeroEnvelope,
     CounterpartyLatestSettleWithGuestTx = None,
     CounterpartyLatestSettleWithHostTx = zeroEnvelope,
     CounterpartyCoopCloseSig = zeroSig, LastMsgIndex = 0\<rparr>"

subsection \<open>The updater and its collaborators\<close>

datatype Output = OutputMsg Message | OutputTx TransactionEnvelope

record WalletAcct =
  Seqnum :: SequenceNumber

text \<open>
  Modelled from the spec: the declaration of \<^verbatim>\<open>Updater\<close> is not among the source files.
  It holds what the handlers use: the channel \<open>C\<close>, the wallet account \<open>H\<close>, the seed
  (\<open>None\<close> is \<^verbatim>\<open>nil\<close>), the ledger time and the network passphrase; \<open>Out\<close> is the
  output sink \<^verbatim>\<open>O\<close> of the spec (section 6.2) as the list of what was emitted, and
  \<open>Debug\<close> collects the lines of \<^verbatim>\<open>u.debugf\<close> (the format strings, unformatted).
\<close>

record Updater =
  C :: Channel
  H :: WalletAcct
  Out :: "Output list"
  Seed :: "bytes option"
  LedgerTime :: Time
  Passphrase :: string
  Debug :: "string list"

text \<open>
  Modelled from the spec: \<^verbatim>\<open>Updater.debugf\<close> is not among the source files. A silent
  drop is "logged at debug" (section 7): the line is appended to \<open>Debug\<close>, nothing else
  changes.
\<close>

definition debugf :: "string \<Rightarrow> Updater \<Rightarrow> Updater" where
  "debugf line u = u\<lparr>Debug := Debug u @ [line]\<rparr>"

text \<open>
  The collaborators the spec leaves opaque (sections 1, 4.9 and 6.4) are parameters:
  key parsing (\<^verbatim>\<open>keypair.Parse\<close> of an account's address, \<^verbatim>\<open>AccountID.SetAddress\<close>),
  the transaction builders, \<^verbatim>\<open>verifySig\<close> (\<open>None\<close> when the signature verifies),
  \<^verbatim>\<open>detachedSig\<close>, \<^verbatim>\<open>json.Marshal\<close>, the primary key's \<^verbatim>\<open>Sign\<close>, and what a
  state's entry emits to the sink (\<open>effects\<close>, used by \<open>transitionTo\<close> below: it is
  given the state entered and the updater as it was before the state changed). The
  constant \<^verbatim>\<open>key.PrimaryAccountIndex\<close> of the key package is a parameter as well.
  Every theorem below holds for all of them.
\<close>

record env =
  keypair_Parse :: "AccountID \<Rightarrow> error + KP"
  SetAddress :: "string \<Rightarrow> error + AccountID"
  buildRatchetTx :: "Channel \<Rightarrow> Time \<Rightarrow> AccountID \<Rightarrow> SequenceNumber \<Rightarrow> error + Tx"
  buildSettleOnlyWithHostTx :: "Channel \<Rightarrow> Time \<Rightarrow> error + Tx"
  buildSettleWithHostTx :: "Channel \<Rightarrow> Time \<Rightarrow> error + Tx"
  buildSettleWithGuestTx :: "Channel \<Rightarrow> Time \<Rightarrow> error + Tx"
  buildCooperativeCloseTx :: "Channel \<Rightarrow> error + Tx"
  verifySig :: "Tx \<Rightarrow> KP \<Rightarrow> DecoratedSignature \<Rightarrow> error option"
  detachedSig :: "Tx \<Rightarrow> bytes option \<Rightarrow> string \<Rightarrow> 32 word \<Rightarrow> error + DecoratedSignature"
  Marshal :: "Message \<Rightarrow> error + bytes"
  Sign :: "bytes \<Rightarrow> bytes \<Rightarrow> bytes option \<times> error option"
  effects :: "State \<Rightarrow> Updater \<Rightarrow> error + Output list"
  PrimaryAccountIndex :: "32 word"

text \<open>
  Modelled from the spec: \<^verbatim>\<open>Updater.transitionTo\<close> is not among the source files. The
  spec (section 2): a handler "mutates channel state and transitions to a new FSM state,
  possibly producing messages/transactions via the sink". The model sets \<open>State\<close>, then
  appends what the state's entry emits to the sink, or returns the error of the emission.
\<close>

definition transitionTo :: "env \<Rightarrow> State \<Rightarrow> Updater \<Rightarrow> ret \<times> Updater" where
  "transitionTo env newState u =
     (let u1 = u\<lparr>C := (C u)\<lparr>State := newState\<rparr>\<rparr> in
      case effects env newState u of
        Inl e \<Rightarrow> (Err e, u1)
      | Inr outs \<Rightarrow> (Ok, u1\<lparr>Out := Out u1 @ outs\<rparr>))"

text \<open>
  Modelled from the spec: the three \<^verbatim>\<open>Channel\<close> methods that store signed transactions
  are not among the source files. Each signs the transaction with our key
  (\<^verbatim>\<open>detachedSig\<close>, which fails without a seed) and stores the envelope with both
  signatures; on an error nothing is stored.
  \<^item> \<open>signRatchetTx\<close> (section 4.5, step 5): "Store the ratchet tx with both signatures as
    the channel's CurrentRatchetTx".
  \<^item> \<open>setCounterpartySettlementTxes\<close> (section 4.4): "store counterparty settlement txes
    as the latest pair".
  \<^item> \<open>setLatestSettlementTxes\<close> (section 4.5, step 4): "Set the counterparty and latest
    settlement txes (finalizing them as the channel's current publishable pair)".
\<close>

definition signRatchetTx ::
  "env \<Rightarrow> Channel \<Rightarrow> Tx \<Rightarrow> DecoratedSignature \<Rightarrow> bytes option \<Rightarrow> error option \<times> Channel" where
  "signRatchetTx env ch ratchetTx sig seed =
     (case detachedSig env ratchetTx seed (Channel.Passphrase ch) (KeyIndex ch) of
        Inl e \<Rightarrow> (Some e, ch)
      | Inr ours \<Rightarrow>
          (None, ch\<lparr>CurrentRatchetTx := \<lparr>Tx = ratchetTx, Signatures = [ours, sig]\<rparr>\<rparr>))"

definition setCounterpartySettlementTxes ::
  "env \<Rightarrow> Channel \<Rightarrow> Tx option \<Rightarrow> Tx \<Rightarrow> DecoratedSignature \<Rightarrow> DecoratedSignature
     \<Rightarrow> bytes option \<Rightarrow> error option \<times> Channel" where
  "setCounterpartySettlementTxes env ch settleWithGuestTx settleWithHostTx
       settleWithGuestSig settleWithHostSig seed =
     (case detachedSig env settleWithHostTx seed (Channel.Passphrase ch) (KeyIndex ch) of
        Inl e \<Rightarrow> (Some e, ch)
      | Inr oursHost \<Rightarrow>
          (case settleWithGuestTx of
             None \<Rightarrow>
               (None, ch\<lparr>CounterpartyLatestSettleWithGuestTx := None,
                     CounterpartyLatestSettleWithHostTx :=
                       \<lparr>Tx = settleWithHostTx, Signatures = [oursHost, settleWithHostSig]\<rparr>\<rparr>)
           | Some guestTx \<Rightarrow>
               (case detachedSig env guestTx seed (Channel.Passphrase ch) (KeyIndex ch) of
                  Inl e \<Rightarrow> (Some e, ch)
                | Inr oursGuest \<Rightarrow>
                    (None, ch\<lparr>CounterpartyLatestSettleWithGuestTx :=
                            Some \<lparr>Tx = guestTx, Signatures = [oursGuest, settleWithGuestSig]\<rparr>,
                          CounterpartyLatestSettleWithHostTx :=
                            \<lparr>Tx = settleWithHostTx,
                             Signatures = [oursHost, settleWithHostSig]\<rparr>\<rparr>))))"

definition setLatestSettlementTxes ::
  "env \<Rightarrow> Channel \<Rightarrow> Tx option \<Rightarrow> Tx \<Rightarrow> DecoratedSignature option \<Rightarrow> DecoratedSignature
     \<Rightarrow> bytes option \<Rightarrow> error option \<times> Channel" where
  "setLatestSettlementTxes env ch settleWithGuestTx settleWithHostTx
       settleWithGuestSig settleWithHostSig seed =
     (case setCounterpartySettlementTxes env ch settleWithGuestTx settleWithHostTx
             (case settleWithGuestSig of None \<Rightarrow> zeroSig | Some sig \<Rightarrow> sig)
             settleWithHostSig seed of
        (Some e, ch') \<Rightarrow> (Some e, ch')
      | (None, ch') \<Rightarrow>
          (None, ch'\<lparr>CurrentSettleWithGuestTx := CounterpartyLatestSettleWithGuestTx ch',
                 CurrentSettleWithHostTx := CounterpartyLatestSettleWithHostTx ch'\<rparr>))"


section \<open>Inbound-message handlers (msg.go)\<close>

text \<open>
  Each handler takes the updater and returns what the Go method returns together with
  the updater as the call left it: the handlers write through the pointer \<^verbatim>\<open>u.C\<close>, so
  what they wrote before an early return stays written.
\<close>

definition handlePaymentCompleteMsg :: "env \<Rightarrow> Message \<Rightarrow> Updater \<Rightarrow> ret \<times> Updater" where
  "handlePaymentCompleteMsg env m u =
     (let c0 = C u in
      if State c0 \<noteq> PaymentAccepted then (Err (WrapState ErrUnexpectedState (State c0)), u)
      else
        let delta = PendingAmountReceived c0 - PendingAmountSent c0;
            c1 = (case Role c0 of
                    Guest \<Rightarrow> c0\<lparr>GuestAmount := GuestAmount c0 + delta,
                               HostAmount := HostAmount c0 - delta\<rparr>
                  | Host \<Rightarrow> c0\<lparr>HostAmount := HostAmount c0 + delta,
                              GuestAmount := GuestAmount c0 - delta\<rparr>);
            senderRatchetAccount =
              (case Role c0 of Guest \<Rightarrow> HostRatchetAcct c0 | Host \<Rightarrow> GuestRatchetAcct c0);
            senderRatchetSeqNum =
              (case Role c0 of Guest \<Rightarrow> HostRatchetAcctSeqNum c0
                             | Host \<Rightarrow> GuestRatchetAcctSeqNum c0);
            u1 = u\<lparr>C := c1\<rparr>
        in
        case keypair_Parse env (case Role c0 of Guest \<Rightarrow> EscrowAcct c0 | Host \<Rightarrow> GuestAcct c0) of
          Inl e \<Rightarrow> (Err e, u1)
        | Inr senderKey \<Rightarrow>
        (case buildRatchetTx env c1 (PendingPaymentTime c1) senderRatchetAccount
                senderRatchetSeqNum of
          Inl e \<Rightarrow> (Err e, u1)
        | Inr ratchetTx \<Rightarrow>
        (case PaymentCompleteMsg m of
          None \<Rightarrow> (Panic, u1)
        | Some complete \<Rightarrow>
        (case verifySig env ratchetTx senderKey (SenderRatchetSig complete) of
          Some e \<Rightarrow> (Err (Wrap e ''ratchet tx''), u1)
        | None \<Rightarrow>
        (let c2 = c1\<lparr>CurrentSettleWithGuestTx := CounterpartyLatestSettleWithGuestTx c1,
                     CurrentSettleWithHostTx := CounterpartyLatestSettleWithHostTx c1\<rparr>
         in
         case signRatchetTx env c2 ratchetTx (SenderRatchetSig complete) (Seed u) of
           (Some e, c3) \<Rightarrow> (Err e, u\<lparr>C := c3\<rparr>)
         | (None, c3) \<Rightarrow>
             transitionTo env Open
               (u\<lparr>C := c3\<lparr>PaymentTime := PendingPaymentTime c3,
                         PendingAmountReceived := 0,
                         PendingAmountSent := 0\<rparr>\<rparr>))))))"

text \<open>
  The channel of \<open>handlePaymentAcceptMsg\<close> once the pending outbound payment is applied to
  the balances (lines 158-171).
\<close>

definition acceptCh1 :: "Channel \<Rightarrow> Channel" where
  "acceptCh1 c0 =
     (case Role c0 of
        Guest \<Rightarrow> c0\<lparr>GuestAmount := GuestAmount c0 - PendingAmountSent c0,
                   HostAmount := HostAmount c0 + PendingAmountSent c0\<rparr>
      | Host \<Rightarrow> c0\<lparr>HostAmount := HostAmount c0 - PendingAmountSent c0,
                  GuestAmount := GuestAmount c0 + PendingAmountSent c0\<rparr>)"

text \<open>
  The settle-with-guest step of \<open>handlePaymentAcceptMsg\<close> (lines 198-213): an early
  return on the left, the guest transaction and signature to store on the right.
\<close>

definition acceptGuestTx ::
  "env \<Rightarrow> Channel \<Rightarrow> KP \<Rightarrow> PaymentAcceptMsg \<Rightarrow> ret + (Tx option \<times> DecoratedSignature option)" where
  "acceptGuestTx env c1 recipientKey accept =
     (if GuestAmount c1 = 0 then
        (if RecipientSettleWithGuestSig accept \<noteq> None then Inl (Err ErrUnusedSettleWithGuestSig)
         else Inr (None, None))
      else
        (case buildSettleWithGuestTx env c1 (PendingPaymentTime c1) of
           Inl e \<Rightarrow> Inl (Err (Wrap e ''building settle with guest tx''))
         | Inr guestTx \<Rightarrow>
             (case RecipientSettleWithGuestSig accept of
                None \<Rightarrow> Inl Panic
              | Some sig \<Rightarrow>
                  (case verifySig env guestTx recipientKey sig of
                     Some e \<Rightarrow> Inl (Err (Wrap e ''settle with guest tx''))
                   | None \<Rightarrow> Inr (Some guestTx, Some sig)))))"

definition handlePaymentAcceptMsg :: "env \<Rightarrow> Message \<Rightarrow> Updater \<Rightarrow> ret \<times> Updater" where
  "handlePaymentAcceptMsg env m u =
     (let c0 = C u;
          c1 = acceptCh1 c0;
          recipientAccount =
            (case Role c0 of Guest \<Rightarrow> HostRatchetAcct c0 | Host \<Rightarrow> GuestRatchetAcct c0);
          recipientSeqNum =
            (case Role c0 of Guest \<Rightarrow> HostRatchetAcctSeqNum c0
                           | Host \<Rightarrow> GuestRatchetAcctSeqNum c0);
          u1 = u\<lparr>C := c1\<rparr>
      in
      case keypair_Parse env (case Role c0 of Guest \<Rightarrow> EscrowAcct c0 | Host \<Rightarrow> GuestAcct c0) of
        Inl e \<Rightarrow> (Err e, u1)
      | Inr recipientKey \<Rightarrow>
      (case buildRatchetTx env c1 (PendingPaymentTime c1) recipientAccount recipientSeqNum of
        Inl e \<Rightarrow> (Err e, u1)
      | Inr ratchetTx \<Rightarrow>
      (case PaymentAcceptMsg m of
        None \<Rightarrow> (Panic, u1)
      | Some accept \<Rightarrow>
      (case verifySig env ratchetTx recipientKey (RecipientRatchetSig accept) of
        Some e \<Rightarrow> (Err (Wrap e ''ratchet tx''), u1)
      | None \<Rightarrow>
      (case (if GuestAmount c1 = 0
             then buildSettleOnlyWithHostTx env c1 (PendingPaymentTime c1)
             else buildSettleWithHostTx env c1 (PendingPaymentTime c1)) of
        Inl e \<Rightarrow> (Err e, u1)
      | Inr hostTx \<Rightarrow>
      (case verifySig env hostTx recipientKey (RecipientSettleWithHostSig accept) of
        Some e \<Rightarrow> (Err (Wrap e ''settle with host tx''), u1)
      | None \<Rightarrow>
      (case acceptGuestTx env c1 recipientKey accept of
        Inl r \<Rightarrow> (r, u1)
      | Inr (guestTx, recipientSettleWithGuestSig) \<Rightarrow>
      (case setLatestSettlementTxes env c1 guestTx hostTx recipientSettleWithGuestSig
              (RecipientSettleWithHostSig accept) (Seed u) of
        (Some e, c2) \<Rightarrow> (Err e, u\<lparr>C := c2\<rparr>)
      | (None, c2) \<Rightarrow>
      (case signRatchetTx env c2 ratchetTx (RecipientRatchetSig accept) (Seed u) of
        (Some e, c3) \<Rightarrow> (Err e, u\<lparr>C := c3\<rparr>)
      | (None, c3) \<Rightarrow>
          transitionTo env Open
            (u\<lparr>C := c3\<lparr>PaymentTime := PendingPaymentTime c3,
                      PendingAmountReceived := 0,
                      PendingAmountSent := 0\<rparr>\<rparr>))))))))))"

definition handleChannelProposeMsg :: "env \<Rightarrow> Message \<Rightarrow> Updater \<Rightarrow> ret \<times> Updater" where
  "handleChannelProposeMsg env m u =
     (let c0 = C u in
      if State c0 \<noteq> Start then (Err ErrChannelExists, u)
      else
        case ChannelProposeMsg m of
          None \<Rightarrow> (Panic, u)
        | Some propose \<Rightarrow>
            if ChannelProposeMsg.GuestAcct propose \<noteq> GuestAcct c0
            then (Ok, debugf ''dropped message: proposed guest acct %s doesn't match channel guest acct %s'' u)
            else
              (case SetAddress env (ChannelID m) of
                 Inl e \<Rightarrow> (Err e, u)
               | Inr escrowAcct \<Rightarrow>
                   transitionTo env AwaitingFunding
                     (u\<lparr>C := zeroChannel
                        \<lparr>ID := ChannelID m,
                         Role := Guest,
                         HostAmount := ChannelProposeMsg.HostAmount propose,
                         MaxRoundDuration := ChannelProposeMsg.MaxRoundDuration propose,
                         FinalityDelay := ChannelProposeMsg.FinalityDelay propose,
                         FundingTime := ChannelProposeMsg.FundingTime propose,
                         PaymentTime := ChannelProposeMsg.FundingTime propose,
                         HostAcct := ChannelProposeMsg.HostAcct propose,
                         GuestAcct := GuestAcct c0,
                         EscrowAcct := escrowAcct,
                         HostRatchetAcct := ChannelProposeMsg.HostRatchetAcct propose,
                         GuestRatchetAcct := ChannelProposeMsg.GuestRatchetAcct propose,
                         RoundNumber := 1,
                         BaseSequenceNumber := BaseSequenceNumber c0,
                         HostRatchetAcctSeqNum := HostRatchetAcctSeqNum c0,
                         GuestRatchetAcctSeqNum := GuestRatchetAcctSeqNum c0,
                         KeyIndex := PrimaryAccountIndex env,
                         Channel.Passphrase := Updater.Passphrase u,
                         CounterpartyAddress := CounterpartyAddress c0,
                         ChannelFeerate := Feerate propose\<rparr>\<rparr>)))"

definition handleChannelAcceptMsg :: "env \<Rightarrow> Message \<Rightarrow> Updater \<Rightarrow> ret \<times> Updater" where
  "handleChannelAcceptMsg env m u =
     (let c0 = C u in
      if State c0 \<noteq> ChannelProposed then (Err (WrapState ErrUnexpectedState (State c0)), u)
      else if Role c0 \<noteq> Host
      then (Ok, debugf ''dropped message: host cannot accept channel'' u)
      else if After (LedgerTime u) (Add (FundingTime c0) (MaxRoundDuration c0))
      then (Ok, debugf ''dropped message: ledger time %s past funding time %s with max round duration %s'' u)
      else
        let u1 = u\<lparr>H := (H u)\<lparr>Seqnum := Seqnum (H u) + 1\<rparr>\<rparr> in
        case keypair_Parse env (GuestAcct c0) of
          Inl e \<Rightarrow> (Err e, u1)
        | Inr guestKey \<Rightarrow>
        (case buildRatchetTx env c0 (FundingTime c0) (HostRatchetAcct c0)
                (HostRatchetAcctSeqNum c0) of
          Inl e \<Rightarrow> (Err e, u1)
        | Inr ratchetTx \<Rightarrow>
        (case ChannelAcceptMsg m of
          None \<Rightarrow> (Panic, u1)
        | Some accept \<Rightarrow>
        (case verifySig env ratchetTx guestKey (GuestRatchetRound1Sig accept) of
          Some e \<Rightarrow> (Err (Wrap e ''invalid signature on round 1 ratchet tx''), u1)
        | None \<Rightarrow>
        (let c1 = snd (signRatchetTx env c0 ratchetTx (GuestRatchetRound1Sig accept) (Seed u));
             u2 = u1\<lparr>C := c1\<rparr>
         in
         case buildSettleOnlyWithHostTx env c1 (FundingTime c1) of
           Inl e \<Rightarrow> (Err e, u2)
         | Inr settleOnlyWithHostTx \<Rightarrow>
         (case verifySig env settleOnlyWithHostTx guestKey (GuestSettleOnlyWithHostSig accept) of
           Some e \<Rightarrow> (Err (Wrap e ''invalid signature on round 1 settlement tx''), u2)
         | None \<Rightarrow>
             transitionTo env AwaitingFunding
               (u2\<lparr>C := snd (setLatestSettlementTxes env c1 None settleOnlyWithHostTx None
                               (GuestSettleOnlyWithHostSig accept) (Seed u))\<rparr>)))))))"


text \<open>
  The hypothetical channel \<^verbatim>\<open>ch2\<close> of \<open>handlePaymentProposeMsg\<close> (lines 353-366): a copy
  of the channel with the proposed payment applied.
\<close>

definition proposeCh2 :: "Channel \<Rightarrow> PaymentProposeMsg \<Rightarrow> Channel" where
  "proposeCh2 c0 payment =
     (let ch2 = (if State c0 = Open \<or> State c0 = AwaitingPaymentMerge
                 then c0\<lparr>RoundNumber := RoundNumber c0 + 1\<rparr> else c0)
      in case Role ch2 of
           Guest \<Rightarrow> ch2\<lparr>GuestAmount := GuestAmount ch2 + PaymentAmount payment,
                       HostAmount := HostAmount ch2 - PaymentAmount payment\<rparr>
         | Host \<Rightarrow> ch2\<lparr>HostAmount := HostAmount ch2 + PaymentAmount payment,
                      GuestAmount := GuestAmount ch2 - PaymentAmount payment\<rparr>)"

text \<open>
  The settlement transactions of the proposal (lines 368-393): an early return on the
  left, the pair \<^verbatim>\<open>(settleWithGuestTx, settleWithHostTx)\<close> on the right.
\<close>

definition proposeSettleTxes ::
  "env \<Rightarrow> Updater \<Rightarrow> Channel \<Rightarrow> KP \<Rightarrow> PaymentProposeMsg
     \<Rightarrow> (ret \<times> Updater) + (Tx option \<times> Tx)" where
  "proposeSettleTxes env u ch2 verifyKey payment =
     (if GuestAmount ch2 = 0 then
        (if DecoratedSignature.Signature (SenderSettleWithGuestSig payment) \<noteq> None
         then Inl (Err ErrUnusedSettleWithGuestSig, debugf ''dropped message: %s'' u)
         else
           (case buildSettleOnlyWithHostTx env ch2 (PaymentProposeMsg.PaymentTime payment) of
              Inl e \<Rightarrow>
                Inl (Err e, debugf ''dropped message: error building SettleOnlyWithHostTx %s'' u)
            | Inr settleWithHostTx \<Rightarrow> Inr (None, settleWithHostTx)))
      else
        (case buildSettleWithGuestTx env ch2 (PaymentProposeMsg.PaymentTime payment) of
           Inl e \<Rightarrow>
             Inl (Err e, debugf ''dropped message: error building SettleWithGuestTx %s'' u)
         | Inr settleWithGuestTx \<Rightarrow>
             (case verifySig env settleWithGuestTx verifyKey (SenderSettleWithGuestSig payment) of
                Some e \<Rightarrow> Inl (Err (Wrap e ''settle with guest tx''), u)
              | None \<Rightarrow>
                  (case buildSettleWithHostTx env ch2 (PaymentProposeMsg.PaymentTime payment) of
                     Inl e \<Rightarrow>
                       Inl (Err e,
                            debugf ''dropped message: error building SettleWithHostTx %s'' u)
                   | Inr settleWithHostTx \<Rightarrow>
                       Inr (Some settleWithGuestTx, settleWithHostTx)))))"

text \<open>The final switch on the state (lines 398-445), once every signature has verified.\<close>

definition proposeCommit ::
  "env \<Rightarrow> Updater \<Rightarrow> PaymentProposeMsg \<Rightarrow> Tx option \<Rightarrow> Tx \<Rightarrow> ret \<times> Updater" where
  "proposeCommit env u payment settleWithGuestTx settleWithHostTx =
     (let c0 = C u in
      if State c0 = Open \<or> State c0 = AwaitingPaymentMerge then
        if RoundNumber c0 \<ge> PaymentProposeMsg.RoundNumber payment
        then (Ok, debugf ''dropped message: payment round %d for channel round %d'' u)
        else if After (LedgerTime u)
                  (Add (PaymentProposeMsg.PaymentTime payment) (MaxRoundDuration c0))
        then (Ok, debugf ''dropped message: payment time %v with duration %v at ledger time %v'' u)
        else if Before (LedgerTime u)
                  (Add (PaymentProposeMsg.PaymentTime payment) (- 1 * MaxRoundDuration c0))
        then (Ok, debugf ''dropped message: payment time %v with duration %v at ledger time %v'' u)
        else if Before (PaymentProposeMsg.PaymentTime payment) (PaymentTime c0)
        then (Ok, debugf ''dropped message: payment time %v with most recent completed payment time %v'' u)
        else if State c0 = AwaitingPaymentMerge \<and>
                PaymentAmount payment \<noteq> PendingAmountReceived c0 - PendingAmountSent c0
        then (Ok, debugf ''dropped message: invalid merge payment amount %s'' u)
        else
          let c1 = (if State c0 = AwaitingPaymentMerge then c0
                    else c0\<lparr>PendingAmountReceived := PaymentAmount payment\<rparr>);
              c2 = snd (setCounterpartySettlementTxes env c1 settleWithGuestTx settleWithHostTx
                          (SenderSettleWithGuestSig payment) (SenderSettleWithHostSig payment)
                          (Seed u));
              c3 = c2\<lparr>PendingPaymentTime := PaymentProposeMsg.PaymentTime payment\<rparr>;
              c4 = c3\<lparr>RoundNumber := RoundNumber c3 + 1\<rparr>
          in transitionTo env PaymentAccepted (u\<lparr>C := c4\<rparr>)
      else if State c0 = PaymentProposed then
        if RoundNumber c0 \<noteq> PaymentProposeMsg.RoundNumber payment
        then (Ok, debugf ''dropped message: payment round %d for channel round %d'' u)
        else if sint (PendingAmountSent c0) > sint (PaymentAmount payment) \<or>
                (PendingAmountSent c0 = PaymentAmount payment \<and> Role c0 = Host)
        then
          let c1 = c0\<lparr>RoundNumber := RoundNumber c0 + 1\<rparr>;
              c2 = c1\<lparr>PendingAmountSent := PendingAmountSent c1 - PaymentAmount payment\<rparr>
          in transitionTo env PaymentProposed (u\<lparr>C := c2\<rparr>)
        else
          transitionTo env AwaitingPaymentMerge
            (u\<lparr>C := c0\<lparr>PendingAmountReceived := PaymentAmount payment\<rparr>\<rparr>)
      else (Ok, u))"

definition handlePaymentProposeMsg :: "env \<Rightarrow> Message \<Rightarrow> Updater \<Rightarrow> ret \<times> Updater" where
  "handlePaymentProposeMsg env m u =
     (let c0 = C u in
      if State c0 \<noteq> Open \<and> State c0 \<noteq> PaymentProposed \<and> State c0 \<noteq> AwaitingPaymentMerge
      then (Err (WrapState ErrUnexpectedState (State c0)), u)
      else
        case PaymentProposeMsg m of
          None \<Rightarrow> (Panic, u)
        | Some payment \<Rightarrow>
            if sint (PaymentAmount payment) < 0
            then (Ok, debugf ''dropped message: invalid payment amount %s'' u)
            else if (case Role c0 of
                       Guest \<Rightarrow> sint (HostAmount c0) < sint (PaymentAmount payment)
                     | Host \<Rightarrow> sint (GuestAmount c0) < sint (PaymentAmount payment))
            then (Ok, (case Role c0 of
                         Guest \<Rightarrow> debugf ''dropped message: invalid payment amount %s from host with balance %s'' u
                       | Host \<Rightarrow> debugf ''dropped message: invalid payment amount %s from guest with balance %s'' u))
            else
              (case keypair_Parse env
                      (case Role c0 of Guest \<Rightarrow> EscrowAcct c0 | Host \<Rightarrow> GuestAcct c0) of
                 Inl e \<Rightarrow> (Err e, u)
               | Inr verifyKey \<Rightarrow>
                   (case proposeSettleTxes env u (proposeCh2 c0 payment) verifyKey payment of
                      Inl r \<Rightarrow> r
                    | Inr (settleWithGuestTx, settleWithHostTx) \<Rightarrow>
                        (case verifySig env settleWithHostTx verifyKey
                                (SenderSettleWithHostSig payment) of
                           Some e \<Rightarrow> (Err (Wrap e ''settle with host tx''), u)
                         | None \<Rightarrow>
                             proposeCommit env u payment settleWithGuestTx settleWithHostTx))))"

definition handleCloseMsg :: "env \<Rightarrow> Message \<Rightarrow> Updater \<Rightarrow> ret \<times> Updater" where
  "handleCloseMsg env m u =
     (let c0 = C u in
      if State c0 \<noteq> Open \<and> State c0 \<noteq> PaymentProposed \<and> State c0 \<noteq> AwaitingClose
      then (Err (WrapState ErrUnexpectedState (State c0)), u)
      else
        case keypair_Parse env (case Role c0 of Guest \<Rightarrow> EscrowAcct c0 | Host \<Rightarrow> GuestAcct c0) of
          Inl e \<Rightarrow> (Err e, u)
        | Inr verifyKey \<Rightarrow>
        (case buildCooperativeCloseTx env c0 of
          Inl e \<Rightarrow> (Err e, u)
        | Inr coopCloseTx \<Rightarrow>
        (case CloseMsg m of
          None \<Rightarrow> (Panic, u)
        | Some close \<Rightarrow>
        (case verifySig env coopCloseTx verifyKey (CooperativeCloseSig close) of
          Some e \<Rightarrow> (Err (Wrap e ''coop close tx''), u)
        | None \<Rightarrow>
            transitionTo env AwaitingClose
              (u\<lparr>C := c0\<lparr>CounterpartyCoopCloseSig := CooperativeCloseSig close\<rparr>\<rparr>)))))"


section \<open>Message constructors (second source file)\<close>

text \<open>
  A constructor returns \<^verbatim>\<open>(*Message, error)\<close>: the message (\<open>None\<close> is \<^verbatim>\<open>nil\<close>) and
  the error. \<open>zeroMessage\<close> is the zero \<^verbatim>\<open>Message{}\<close> that the composite literals start
  from.
\<close>

definition zeroMessage :: Message where
  "zeroMessage =
     \<lparr>ChannelID = [], MsgNum = 0, Version = 0, ChannelProposeMsg = None,
      ChannelAcceptMsg = None, PaymentProposeMsg = None, PaymentAcceptMsg = None,
      PaymentCompleteMsg = None, CloseMsg = None, Signature = None\<rparr>"

definition bytesToSign :: "env \<Rightarrow> Message \<Rightarrow> error + bytes" where
  "bytesToSign env m = Marshal env (m\<lparr>Signature := None\<rparr>)"

definition signMsg :: "env \<Rightarrow> Message \<Rightarrow> bytes option \<Rightarrow> Message option \<times> ret" where
  "signMsg env m seed =
     (case seed of
        None \<Rightarrow> (None, Err errNoSeed)
      | Some sd \<Rightarrow>
          (case bytesToSign env m of
             Inl e \<Rightarrow> (None, Err e)
           | Inr bs \<Rightarrow>
               (case Sign env sd bs of
                  (sig, err) \<Rightarrow>
                    (Some (m\<lparr>Signature := sig\<rparr>),
                     (case err of None \<Rightarrow> Ok | Some e \<Rightarrow> Err e)))))"

definition createPaymentCompleteMsg ::
  "env \<Rightarrow> bytes option \<Rightarrow> Channel \<Rightarrow> Message option \<times> ret" where
  "createPaymentCompleteMsg env seed ch =
     (let ratchetAccount =
            (case Role ch of Guest \<Rightarrow> GuestRatchetAcct ch | Host \<Rightarrow> HostRatchetAcct ch);
          ratchetSeqNum =
            (case Role ch of Guest \<Rightarrow> GuestRatchetAcctSeqNum ch
                           | Host \<Rightarrow> HostRatchetAcctSeqNum ch)
      in
      case buildRatchetTx env ch (PendingPaymentTime ch) ratchetAccount ratchetSeqNum of
        Inl e \<Rightarrow> (None, Err e)
      | Inr senderRatchetTx \<Rightarrow>
          (case detachedSig env senderRatchetTx seed (Channel.Passphrase ch) (KeyIndex ch) of
             Inl e \<Rightarrow> (None, Err e)
           | Inr senderRatchetSig \<Rightarrow>
               signMsg env
                 (zeroMessage
                    \<lparr>ChannelID := ID ch,
                     PaymentCompleteMsg :=
                       Some \<lparr>PaymentCompleteMsg.RoundNumber = RoundNumber ch,
                             SenderRatchetSig = senderRatchetSig\<rparr>,
                     Version := version,
                     MsgNum := LastMsgIndex ch + 1\<rparr>)
                 seed))"

definition createChannelProposeMsg ::
  "env \<Rightarrow> bytes option \<Rightarrow> Channel \<Rightarrow> WalletAcct \<Rightarrow> Message option \<times> ret" where
  "createChannelProposeMsg env seed ch h =
     signMsg env
       (zeroMessage
          \<lparr>ChannelID := ID ch,
           ChannelProposeMsg :=
             Some \<lparr>ChannelProposeMsg.HostAcct = HostAcct ch,
                   GuestAcct = GuestAcct ch,
                   HostRatchetAcct = HostRatchetAcct ch,
                   GuestRatchetAcct = GuestRatchetAcct ch,
                   MaxRoundDuration = MaxRoundDuration ch,
                   FinalityDelay = FinalityDelay ch,
                   BaseSequenceNumber = BaseSequenceNumber ch,
                   HostAmount = HostAmount ch,
                   Feerate = ChannelFeerate ch,
                   FundingTime = FundingTime ch\<rparr>,
           Version := version,
           MsgNum := LastMsgIndex ch + 1\<rparr>)
       seed"

text \<open>
  The signatures of \<open>createPaymentProposeMsg\<close> (lines 197-224), made over the copy
  \<^verbatim>\<open>ch2\<close>: \<^verbatim>\<open>(settleWithHostSig, settleWithGuestSig)\<close>, or the error.
\<close>

definition proposeSigs ::
  "env \<Rightarrow> bytes option \<Rightarrow> Channel \<Rightarrow> error + (DecoratedSignature \<times> DecoratedSignature)" where
  "proposeSigs env seed ch2 =
     (if GuestAmount ch2 = 0 then
        (case buildSettleOnlyWithHostTx env ch2 (PendingPaymentTime ch2) of
           Inl e \<Rightarrow> Inl e
         | Inr settleOnlyWithHostTx \<Rightarrow>
             (case detachedSig env settleOnlyWithHostTx seed (Channel.Passphrase ch2)
                     (KeyIndex ch2) of
                Inl e \<Rightarrow> Inl e
              | Inr settleWithHostSig \<Rightarrow> Inr (settleWithHostSig, zeroSig)))
      else
        (case buildSettleWithGuestTx env ch2 (PendingPaymentTime ch2) of
           Inl e \<Rightarrow> Inl e
         | Inr settleWithGuestTx \<Rightarrow>
             (case detachedSig env settleWithGuestTx seed (Channel.Passphrase ch2)
                     (KeyIndex ch2) of
                Inl e \<Rightarrow> Inl e
              | Inr settleWithGuestSig \<Rightarrow>
                  (case buildSettleWithHostTx env ch2 (PendingPaymentTime ch2) of
                     Inl e \<Rightarrow> Inl e
                   | Inr settleWithHostTx \<Rightarrow>
                       (case detachedSig env settleWithHostTx seed (Channel.Passphrase ch2)
                               (KeyIndex ch2) of
                          Inl e \<Rightarrow> Inl e
                        | Inr settleWithHostSig \<Rightarrow>
                            Inr (settleWithHostSig, settleWithGuestSig))))))"

definition createPaymentProposeMsg ::
  "env \<Rightarrow> bytes option \<Rightarrow> Channel \<Rightarrow> Message option \<times> ret" where
  "createPaymentProposeMsg env seed ch =
     (let ch2 = (case Role ch of
                   Guest \<Rightarrow> ch\<lparr>GuestAmount := GuestAmount ch - PendingAmountSent ch,
                              HostAmount := HostAmount ch + PendingAmountSent ch\<rparr>
                 | Host \<Rightarrow> ch\<lparr>HostAmount := HostAmount ch - PendingAmountSent ch,
                             GuestAmount := GuestAmount ch + PendingAmountSent ch\<rparr>)
      in
      case proposeSigs env seed ch2 of
        Inl e \<Rightarrow> (None, Err e)
      | Inr (settleWithHostSig, settleWithGuestSig) \<Rightarrow>
          signMsg env
            (zeroMessage
               \<lparr>ChannelID := ID ch2,
                PaymentProposeMsg :=
                  Some \<lparr>PaymentProposeMsg.RoundNumber = RoundNumber ch2,
                        PaymentTime = PendingPaymentTime ch2,
                        PaymentAmount = PendingAmountSent ch2,
                        SenderSettleWithGuestSig = settleWithGuestSig,
                        SenderSettleWithHostSig = settleWithHostSig\<rparr>,
                Version := version,
                MsgNum := LastMsgIndex ch + 1\<rparr>)
            seed)"

text \<open>
  The optional settle-with-guest signature of \<open>createPaymentAcceptMsg\<close> (lines 269-285).
  Taking the address of the transaction inside a \<^verbatim>\<open>nil\<close> envelope panics.
\<close>

definition acceptGuestSig ::
  "env \<Rightarrow> bytes option \<Rightarrow> Channel \<Rightarrow> ret + DecoratedSignature option" where
  "acceptGuestSig env seed ch =
     (let guestAmount =
            (case Role ch of
               Guest \<Rightarrow> GuestAmount ch + PendingAmountReceived ch
             | Host \<Rightarrow> GuestAmount ch - PendingAmountReceived ch)
      in
      if guestAmount \<noteq> 0 then
        (case CounterpartyLatestSettleWithGuestTx ch of
           None \<Rightarrow> Inl Panic
         | Some envl \<Rightarrow>
             (case detachedSig env (Tx envl) seed (Channel.Passphrase ch) (KeyIndex ch) of
                Inl e \<Rightarrow> Inl (Err e)
              | Inr sig \<Rightarrow> Inr (Some sig)))
      else Inr None)"

definition createPaymentAcceptMsg ::
  "env \<Rightarrow> bytes option \<Rightarrow> Channel \<Rightarrow> Message option \<times> ret" where
  "createPaymentAcceptMsg env seed ch =
     (let ratchetAccount =
            (case Role ch of Guest \<Rightarrow> GuestRatchetAcct ch | Host \<Rightarrow> HostRatchetAcct ch);
          ratchetSeqNum =
            (case Role ch of Guest \<Rightarrow> GuestRatchetAcctSeqNum ch
                           | Host \<Rightarrow> HostRatchetAcctSeqNum ch)
      in
      case buildRatchetTx env ch (PendingPaymentTime ch) ratchetAccount ratchetSeqNum of
        Inl e \<Rightarrow> (None, Err e)
      | Inr ratchetTx \<Rightarrow>
      (case detachedSig env ratchetTx seed (Channel.Passphrase ch) (KeyIndex ch) of
        Inl e \<Rightarrow> (None, Err e)
      | Inr ratchetTxSig \<Rightarrow>
      (case acceptGuestSig env seed ch of
        Inl r \<Rightarrow> (None, r)
      | Inr settleWithGuestSig \<Rightarrow>
      (case detachedSig env (Tx (CounterpartyLatestSettleWithHostTx ch)) seed
              (Channel.Passphrase ch) (KeyIndex ch) of
        Inl e \<Rightarrow> (None, Err e)
      | Inr settleWithHostSig \<Rightarrow>
          signMsg env
            (zeroMessage
               \<lparr>ChannelID := ID ch,
                PaymentAcceptMsg :=
                  Some \<lparr>PaymentAcceptMsg.RoundNumber = RoundNumber ch,
                        RecipientRatchetSig = ratchetTxSig,
                        RecipientSettleWithGuestSig = settleWithGuestSig,
                        RecipientSettleWithHostSig = settleWithHostSig\<rparr>,
                Version := version,
                MsgNum := LastMsgIndex ch + 1\<rparr>)
            seed))))"

definition createChannelAcceptMsg ::
  "env \<Rightarrow> bytes option \<Rightarrow> Channel \<Rightarrow> Time \<Rightarrow> Message option \<times> ret" where
  "createChannelAcceptMsg env seed ch ledgerTime =
     (case buildSettleOnlyWithHostTx env ch (FundingTime ch) of
        Inl e \<Rightarrow> (None, Err e)
      | Inr settleOnlyWithHostTx \<Rightarrow>
      (case detachedSig env settleOnlyWithHostTx seed (Channel.Passphrase ch) (KeyIndex ch) of
        Inl e \<Rightarrow> (None, Err e)
      | Inr settleOnlyWithHostSig \<Rightarrow>
      (case buildRatchetTx env ch (FundingTime ch) (HostRatchetAcct ch)
              (HostRatchetAcctSeqNum ch) of
        Inl e \<Rightarrow> (None, Err e)
      | Inr ratchetTx \<Rightarrow>
      (case detachedSig env ratchetTx seed (Channel.Passphrase ch) (KeyIndex ch) of
        Inl e \<Rightarrow> (None, Err e)
      | Inr ratchetTxSig \<Rightarrow>
          signMsg env
            (zeroMessage
               \<lparr>ChannelID := ID ch,
                ChannelAcceptMsg :=
                  Some \<lparr>GuestRatchetRound1Sig = ratchetTxSig,
                        GuestSettleOnlyWithHostSig = settleOnlyWithHostSig\<rparr>,
                Version := version,
                MsgNum := LastMsgIndex ch + 1\<rparr>)
            seed))))"

definition createCloseMsg :: "env \<Rightarrow> bytes option \<Rightarrow> Channel \<Rightarrow> Message option \<times> ret" where
  "createCloseMsg env seed ch =
     (case buildCooperativeCloseTx env ch of
        Inl e \<Rightarrow> (None, Err e)
      | Inr coopCloseTx \<Rightarrow>
          (case detachedSig env coopCloseTx seed (Channel.Passphrase ch) (KeyIndex ch) of
             Inl e \<Rightarrow> (None, Err e)
           | Inr coopCloseSig \<Rightarrow>
               signMsg env
                 (zeroMessage
                    \<lparr>ChannelID := ID ch,
                     CloseMsg := Some \<lparr>CooperativeCloseSig = coopCloseSig\<rparr>,
                     Version := version,
                     MsgNum := LastMsgIndex ch + 1\<rparr>)
                 seed))"

section \<open>Concrete collaborators and inputs\<close>

text \<open>
  Two environments for the closed examples below. In \<open>okEnv\<close> every collaborator
  succeeds and every signature verifies; in \<open>badSigEnv\<close> no signature verifies.
\<close>

definition okEnv :: env where
  "okEnv =
     \<lparr>keypair_Parse = (\<lambda>a. Inr a),
      SetAddress = (\<lambda>s. Inr s),
      buildRatchetTx = (\<lambda>c t a n. Inr [1]),
      buildSettleOnlyWithHostTx = (\<lambda>c t. Inr [2]),
      buildSettleWithHostTx = (\<lambda>c t. Inr [3]),
      buildSettleWithGuestTx = (\<lambda>c t. Inr [4]),
      buildCooperativeCloseTx = (\<lambda>c. Inr [5]),
      verifySig = (\<lambda>t k s. None),
      detachedSig = (\<lambda>t sd p i.
         case sd of None \<Rightarrow> Inl errNoSeed
                  | Some k \<Rightarrow> Inr \<lparr>Hint = 0, Signature = Some t\<rparr>),
      Marshal = (\<lambda>m. Inr []),
      Sign = (\<lambda>sd bs. (Some bs, None)),
      effects = (\<lambda>s u. Inr []),
      PrimaryAccountIndex = 0\<rparr>"

definition badSigEnv :: env where
  "badSigEnv =
     okEnv\<lparr>verifySig := (\<lambda>t k s. Some (External ''signature verification failed''))\<rparr>"

definition someSig :: DecoratedSignature where
  "someSig = \<lparr>Hint = 7, Signature = Some [9]\<rparr>"

text \<open>
  A funded channel seen from the guest: 900 units with the host, 100 with the guest,
  round 5, four messages sent.
\<close>

definition chan0 :: Channel where
  "chan0 = zeroChannel
     \<lparr>ID := ''GESCROW'', Role := Guest, State := Open, HostAmount := 900,
      GuestAmount := 100, MaxRoundDuration := 60, PaymentTime := 10,
      PendingPaymentTime := 20, HostAcct := ''GHOST'', GuestAcct := ''GGUEST'',
      EscrowAcct := ''GESCROW'', HostRatchetAcct := ''GHR'', GuestRatchetAcct := ''GGR'',
      RoundNumber := 5, LastMsgIndex := 4\<rparr>"

definition upd0 :: Updater where
  "upd0 = \<lparr>C = chan0, H = \<lparr>Seqnum = 3\<rparr>, Out = [], Seed = Some [1],
           LedgerTime = 25, Passphrase = ''Test Network'', Debug = []\<rparr>"

text \<open>The guest proposed 30, the host proposed 50 at the same time: the guest waits for the merge.\<close>

definition mergeUpd :: Updater where
  "mergeUpd = upd0\<lparr>C := chan0\<lparr>State := AwaitingPaymentMerge, PendingAmountSent := 30,
                                PendingAmountReceived := 50\<rparr>\<rparr>"

text \<open>The guest accepted a payment of 50 from the host and waits for its completion.\<close>

definition acceptedUpd :: Updater where
  "acceptedUpd = upd0\<lparr>C := chan0\<lparr>State := PaymentAccepted, PendingAmountReceived := 50\<rparr>\<rparr>"

text \<open>The guest proposed a payment of 30 (of all its 100) and waits for the acceptance.\<close>

definition proposedUpd :: Updater where
  "proposedUpd = upd0\<lparr>C := chan0\<lparr>State := PaymentProposed, PendingAmountSent := 30\<rparr>\<rparr>"

definition proposedAllUpd :: Updater where
  "proposedAllUpd = upd0\<lparr>C := chan0\<lparr>State := PaymentProposed, PendingAmountSent := 100\<rparr>\<rparr>"

text \<open>The same open channel seen from the host.\<close>

definition hostUpd :: Updater where
  "hostUpd = upd0\<lparr>C := chan0\<lparr>Role := Host\<rparr>\<rparr>"

text \<open>A guest that has not yet heard of the channel.\<close>

definition startUpd :: Updater where
  "startUpd = upd0\<lparr>C := zeroChannel
     \<lparr>GuestAcct := ''GGUEST'', HostAmount := 11, GuestAmount := 12, RoundNumber := 9,
      BaseSequenceNumber := 77, HostRatchetAcctSeqNum := 78, GuestRatchetAcctSeqNum := 79,
      CounterpartyAddress := ''peer.example'', PendingAmountSent := 13,
      PendingAmountReceived := 14, CounterpartyCoopCloseSig := someSig,
      LastMsgIndex := 15\<rparr>\<rparr>"

definition acceptMsg0 :: Message where
  "acceptMsg0 = zeroMessage
     \<lparr>ChannelID := ''GESCROW'', MsgNum := 1, Version := 2,
      PaymentAcceptMsg :=
        Some \<lparr>PaymentAcceptMsg.RoundNumber = 5, RecipientRatchetSig = someSig,
              RecipientSettleWithGuestSig = Some someSig,
              RecipientSettleWithHostSig = someSig\<rparr>\<rparr>"

definition completeMsg0 :: Message where
  "completeMsg0 = zeroMessage
     \<lparr>ChannelID := ''GESCROW'', MsgNum := 1, Version := 2,
      PaymentCompleteMsg :=
        Some \<lparr>PaymentCompleteMsg.RoundNumber = 5, SenderRatchetSig = someSig\<rparr>\<rparr>"

definition proposeMsg :: "64 word \<Rightarrow> Amount \<Rightarrow> Message" where
  "proposeMsg round amount = zeroMessage
     \<lparr>ChannelID := ''GESCROW'', MsgNum := 1, Version := 2,
      PaymentProposeMsg :=
        Some \<lparr>PaymentProposeMsg.RoundNumber = round, PaymentTime = 20,
              PaymentAmount = amount, SenderSettleWithGuestSig = someSig,
              SenderSettleWithHostSig = someSig\<rparr>\<rparr>"

definition closeMsg0 :: Message where
  "closeMsg0 = zeroMessage
     \<lparr>ChannelID := ''GESCROW'', MsgNum := 1, Version := 2,
      CloseMsg := Some \<lparr>CooperativeCloseSig = someSig\<rparr>\<rparr>"

definition channelProposeMsg0 :: Message where
  "channelProposeMsg0 = zeroMessage
     \<lparr>ChannelID := ''GESCROW'', MsgNum := 1, Version := 2,
      ChannelProposeMsg :=
        Some \<lparr>ChannelProposeMsg.HostAcct = ''GHOST'', GuestAcct = ''GGUEST'',
              HostRatchetAcct = ''GHR'', GuestRatchetAcct = ''GGR'', MaxRoundDuration = 60,
              FinalityDelay = 120, BaseSequenceNumber = 1000, HostAmount = 1000,
              Feerate = 1, FundingTime = 5\<rparr>\<rparr>"

text \<open>
  A collision: the channel of \<open>chan0\<close> seen by \<open>role\<close>, which proposed \<open>sent\<close> in round 5
  and now receives the counterparty's proposal for the same round.
\<close>

definition collisionUpd :: "Role \<Rightarrow> Amount \<Rightarrow> Updater" where
  "collisionUpd role sent =
     upd0\<lparr>C := chan0\<lparr>Role := role, State := PaymentProposed, PendingAmountSent := sent\<rparr>\<rparr>"

text \<open>An environment in which only the settle-with-guest transaction's signature fails.\<close>

definition badGuestSigEnv :: env where
  "badGuestSigEnv =
     okEnv\<lparr>verifySig := (\<lambda>t k s. if t = [4] then Some (External ''bad guest signature'')
                                  else None)\<rparr>"

text \<open>The guest's channel holding the counterparty's latest settle-with-guest envelope.\<close>

definition storedChan :: Channel where
  "storedChan = chan0
     \<lparr>State := PaymentAccepted, PendingAmountReceived := 50,
      CounterpartyLatestSettleWithGuestTx := Some \<lparr>Tx = [4], Signatures = [someSig]\<rparr>,
      CounterpartyLatestSettleWithHostTx := \<lparr>Tx = [3], Signatures = [someSig]\<rparr>\<rparr>"

text \<open>An environment in which only the settle-with-host transaction's signature fails.\<close>

definition badHostSigEnv :: env where
  "badHostSigEnv =
     okEnv\<lparr>verifySig := (\<lambda>t k s. if t = [3] then Some (External ''bad host signature'')
                                  else None)\<rparr>"

text \<open>An environment in which the emission on entering a state fails.\<close>

definition badEmitEnv :: env where
  "badEmitEnv = okEnv\<lparr>effects := (\<lambda>s u. Inl (External ''emission failed''))\<rparr>"

text \<open>The host after it proposed the channel, and the guest's answer.\<close>

definition channelProposedUpd :: Updater where
  "channelProposedUpd = upd0\<lparr>C := chan0\<lparr>Role := Host, State := ChannelProposed\<rparr>\<rparr>"

definition channelAcceptMsg0 :: Message where
  "channelAcceptMsg0 = zeroMessage
     \<lparr>ChannelID := ''GESCROW'', MsgNum := 1, Version := 2,
      ChannelAcceptMsg :=
        Some \<lparr>GuestRatchetRound1Sig = someSig, GuestSettleOnlyWithHostSig = someSig\<rparr>\<rparr>"

text \<open>The guest's open channel, driven by an updater that has no seed.\<close>

definition noSeedUpd :: Updater where
  "noSeedUpd = upd0\<lparr>Seed := None\<rparr>"

text \<open>
  An environment whose \<^verbatim>\<open>verifySig\<close> rejects a signature without bytes and accepts every
  other one, and the two payment messages without a settle-with-guest signature.
\<close>

definition nilSigEnv :: env where
  "nilSigEnv =
     okEnv\<lparr>verifySig := (\<lambda>t k s. if DecoratedSignature.Signature s = None
                                  then Some (External ''no signature'') else None)\<rparr>"

definition acceptMsgNoGuestSig :: Message where
  "acceptMsgNoGuestSig = zeroMessage
     \<lparr>ChannelID := ''GESCROW'', MsgNum := 1, Version := 2,
      PaymentAcceptMsg :=
        Some \<lparr>PaymentAcceptMsg.RoundNumber = 5, RecipientRatchetSig = someSig,
              RecipientSettleWithGuestSig = None,
              RecipientSettleWithHostSig = someSig\<rparr>\<rparr>"

definition proposeMsgNoGuestSig :: Message where
  "proposeMsgNoGuestSig = zeroMessage
     \<lparr>ChannelID := ''GESCROW'', MsgNum := 1, Version := 2,
      PaymentProposeMsg :=
        Some \<lparr>PaymentProposeMsg.RoundNumber = 6, PaymentTime = 20,
              PaymentAmount = 40, SenderSettleWithGuestSig = zeroSig,
              SenderSettleWithHostSig = someSig\<rparr>\<rparr>"

lemmas example_defs =
  okEnv_def badSigEnv_def someSig_def chan0_def upd0_def mergeUpd_def acceptedUpd_def
  proposedUpd_def proposedAllUpd_def hostUpd_def startUpd_def acceptMsg0_def
  completeMsg0_def proposeMsg_def closeMsg0_def channelProposeMsg0_def collisionUpd_def
  badGuestSigEnv_def storedChan_def badHostSigEnv_def badEmitEnv_def
  channelProposedUpd_def channelAcceptMsg0_def noSeedUpd_def nilSigEnv_def
  acceptMsgNoGuestSig_def proposeMsgNoGuestSig_def zeroChannel_def
  zeroMessage_def zeroSig_def zeroEnvelope_def

lemmas helper_defs =
  transitionTo_def signRatchetTx_def setCounterpartySettlementTxes_def
  setLatestSettlementTxes_def debugf_def acceptCh1_def Let_def

section \<open>Frames of the helpers\<close>

lemma transitionTo_C:
  "C (snd (transitionTo env s u)) = (C u)\<lparr>State := s\<rparr>"
  by (simp add: transitionTo_def Let_def split: sum.splits)

lemma transitionTo_result:
  "transitionTo env s u = (r, u') \<Longrightarrow> C u' = (C u)\<lparr>State := s\<rparr>"
  using transitionTo_C [of env s u] by simp

lemma signRatchetTx_frame:
  "signRatchetTx env ch tx sig seed = (r, ch') \<Longrightarrow>
     ch' = ch\<lparr>CurrentRatchetTx := CurrentRatchetTx ch'\<rparr>"
  by (auto simp: signRatchetTx_def split: sum.splits)

lemma setCounterpartySettlementTxes_frame:
  "setCounterpartySettlementTxes env ch g h gs hs seed = (r, ch') \<Longrightarrow>
     ch' = ch\<lparr>CounterpartyLatestSettleWithGuestTx := CounterpartyLatestSettleWithGuestTx ch',
             CounterpartyLatestSettleWithHostTx := CounterpartyLatestSettleWithHostTx ch'\<rparr>"
  by (auto simp: setCounterpartySettlementTxes_def split: sum.splits option.splits)

lemma setLatestSettlementTxes_frame:
  "setLatestSettlementTxes env ch g h gs hs seed = (r, ch') \<Longrightarrow>
     ch' = ch\<lparr>CounterpartyLatestSettleWithGuestTx := CounterpartyLatestSettleWithGuestTx ch',
             CounterpartyLatestSettleWithHostTx := CounterpartyLatestSettleWithHostTx ch',
             CurrentSettleWithGuestTx := CurrentSettleWithGuestTx ch',
             CurrentSettleWithHostTx := CurrentSettleWithHostTx ch'\<rparr>"
  by (auto simp: setLatestSettlementTxes_def split: prod.splits option.splits
      dest!: setCounterpartySettlementTxes_frame)

text \<open>
  What a successful \<open>handlePaymentCompleteMsg\<close> leaves, field by field (shared by the
  claims on it below).
\<close>

lemma handlePaymentCompleteMsg_Ok:
  assumes "handlePaymentCompleteMsg env m u = (Ok, u')"
  shows "State (C u) = PaymentAccepted \<and>
         (\<exists>ratchet.
            C u' = (C u)
              \<lparr>GuestAmount :=
                 (case Role (C u) of
                    Guest \<Rightarrow> GuestAmount (C u)
                               + (PendingAmountReceived (C u) - PendingAmountSent (C u))
                  | Host \<Rightarrow> GuestAmount (C u)
                              - (PendingAmountReceived (C u) - PendingAmountSent (C u))),
               HostAmount :=
                 (case Role (C u) of
                    Guest \<Rightarrow> HostAmount (C u)
                               - (PendingAmountReceived (C u) - PendingAmountSent (C u))
                  | Host \<Rightarrow> HostAmount (C u)
                              + (PendingAmountReceived (C u) - PendingAmountSent (C u))),
               CurrentSettleWithGuestTx := CounterpartyLatestSettleWithGuestTx (C u),
               CurrentSettleWithHostTx := CounterpartyLatestSettleWithHostTx (C u),
               CurrentRatchetTx := ratchet,
               PaymentTime := PendingPaymentTime (C u),
               PendingAmountReceived := 0,
               PendingAmountSent := 0,
               State := Open\<rparr>)"
proof -
  from assms have st: "State (C u) = PaymentAccepted"
    by (auto simp: handlePaymentCompleteMsg_def Let_def split: if_splits)
  show ?thesis
  proof (cases "Role (C u)")
    case Guest
    with assms st show ?thesis
      apply (simp add: handlePaymentCompleteMsg_def Let_def
          split: sum.splits option.splits prod.splits)
      apply (auto dest!: transitionTo_result signRatchetTx_frame)
      subgoal for a b c d
        by (rule exI [of _ "CurrentRatchetTx d"]) (cases d, cases "C u", simp)
      done
  next
    case Host
    with assms st show ?thesis
      apply (simp add: handlePaymentCompleteMsg_def Let_def
          split: sum.splits option.splits prod.splits)
      apply (auto dest!: transitionTo_result signRatchetTx_frame)
      subgoal for a b c d
        by (rule exI [of _ "CurrentRatchetTx d"]) (cases d, cases "C u", simp)
      done
  qed
qed


text \<open>The same for \<open>handlePaymentAcceptMsg\<close>, which reads no state at all.\<close>

lemma setLatestSettlementTxes_current:
  "setLatestSettlementTxes env ch g h gs hs seed = (None, ch') \<Longrightarrow>
     CurrentSettleWithGuestTx ch' = CounterpartyLatestSettleWithGuestTx ch' \<and>
     CurrentSettleWithHostTx ch' = CounterpartyLatestSettleWithHostTx ch'"
  by (auto simp: setLatestSettlementTxes_def split: prod.splits option.splits)

lemma acceptGuestTx_not_Ok: "acceptGuestTx env c k a \<noteq> Inl Ok"
  by (simp add: acceptGuestTx_def split: sum.splits option.splits)

lemma handlePaymentAcceptMsg_Ok:
  assumes "handlePaymentAcceptMsg env m u = (Ok, u')"
  shows "\<exists>ratchet latestGuest latestHost.
            C u' = (C u)
              \<lparr>GuestAmount :=
                 (case Role (C u) of
                    Guest \<Rightarrow> GuestAmount (C u) - PendingAmountSent (C u)
                  | Host \<Rightarrow> GuestAmount (C u) + PendingAmountSent (C u)),
               HostAmount :=
                 (case Role (C u) of
                    Guest \<Rightarrow> HostAmount (C u) + PendingAmountSent (C u)
                  | Host \<Rightarrow> HostAmount (C u) - PendingAmountSent (C u)),
               CounterpartyLatestSettleWithGuestTx := latestGuest,
               CounterpartyLatestSettleWithHostTx := latestHost,
               CurrentSettleWithGuestTx := latestGuest,
               CurrentSettleWithHostTx := latestHost,
               CurrentRatchetTx := ratchet,
               PaymentTime := PendingPaymentTime (C u),
               PendingAmountReceived := 0,
               PendingAmountSent := 0,
               State := Open\<rparr>"
proof -
  define c1 where "c1 = acceptCh1 (C u)"
  from assms obtain c2 c3 g h gs hs rt rs where
    latest: "setLatestSettlementTxes env c1 g h gs hs (Seed u) = (None, c2)" and
    ratchet: "signRatchetTx env c2 rt rs (Seed u) = (None, c3)" and
    final: "transitionTo env Open (u\<lparr>C := c3\<lparr>PaymentTime := PendingPaymentTime c3,
                      PendingAmountReceived := 0, PendingAmountSent := 0\<rparr>\<rparr>) = (Ok, u')"
    unfolding handlePaymentAcceptMsg_def Let_def c1_def [symmetric]
    by (auto simp: acceptGuestTx_not_Ok split: sum.splits option.splits prod.splits if_splits)
  from setLatestSettlementTxes_frame [OF latest] setLatestSettlementTxes_current [OF latest]
  obtain lg lh where c2: "c2 = c1\<lparr>CounterpartyLatestSettleWithGuestTx := lg,
       CounterpartyLatestSettleWithHostTx := lh, CurrentSettleWithGuestTx := lg,
       CurrentSettleWithHostTx := lh\<rparr>"
    by metis
  from signRatchetTx_frame [OF ratchet]
  obtain r where c3: "c3 = c2\<lparr>CurrentRatchetTx := r\<rparr>"
    by metis
  have fin: "C u' = c1
              \<lparr>CounterpartyLatestSettleWithGuestTx := lg,
               CounterpartyLatestSettleWithHostTx := lh,
               CurrentSettleWithGuestTx := lg,
               CurrentSettleWithHostTx := lh,
               CurrentRatchetTx := r,
               PaymentTime := PendingPaymentTime c1,
               PendingAmountReceived := 0,
               PendingAmountSent := 0,
               State := Open\<rparr>"
    using transitionTo_result [OF final] by (simp add: c2 c3)
  show ?thesis
    apply (rule exI [of _ r], rule exI [of _ lg], rule exI [of _ lh])
    using fin by (cases "Role (C u)"; cases "C u"; simp add: c1_def acceptCh1_def)
qed


lemma transitionTo_not_Ok:
  "transitionTo env s v = (r, u') \<Longrightarrow> r = Ok \<or> (\<exists>e. r = Err e \<and> effects env s v = Inl e)"
  by (auto simp: transitionTo_def Let_def split: sum.splits)

lemma debugf_C: "C (debugf line u) = C u"
  by (simp add: debugf_def)

lemma proposeSettleTxes_Inl:
  "proposeSettleTxes env u ch2 key payment = Inl (r, u') \<Longrightarrow> C u' = C u \<and> r \<noteq> Ok"
  by (auto simp: proposeSettleTxes_def debugf_C split: if_splits sum.splits option.splits)

lemma proposeCommit_not_Ok:
  "proposeCommit env u payment g h = (r, u') \<Longrightarrow> r \<noteq> Ok \<Longrightarrow>
     \<exists>s v e. r = Err e \<and> effects env s v = Inl e"
  unfolding proposeCommit_def Let_def
  by (auto split: if_splits dest!: transitionTo_not_Ok)

text \<open>
  \<open>handlePaymentProposeMsg\<close> up to its final switch: in an accepted state, with an amount
  within the counterparty's balance, a key that parses and settlement transactions whose
  signatures verify, the handler is the final switch \<open>proposeCommit\<close>.
\<close>

lemma handlePaymentProposeMsg_verified:
  assumes "State (C u) = Open \<or> State (C u) = PaymentProposed
             \<or> State (C u) = AwaitingPaymentMerge"
    and "PaymentProposeMsg m = Some payment"
    and "0 \<le> sint (PaymentAmount payment)"
    and "sint (PaymentAmount payment)
           \<le> sint (case Role (C u) of Guest \<Rightarrow> HostAmount (C u) | Host \<Rightarrow> GuestAmount (C u))"
    and "keypair_Parse env (case Role (C u) of Guest \<Rightarrow> EscrowAcct (C u)
                                             | Host \<Rightarrow> GuestAcct (C u)) = Inr key"
    and "proposeSettleTxes env u (proposeCh2 (C u) payment) key payment = Inr (g, h)"
    and "verifySig env h key (SenderSettleWithHostSig payment) = None"
  shows "handlePaymentProposeMsg env m u = proposeCommit env u payment g h"
  using assms unfolding handlePaymentProposeMsg_def Let_def
  by (cases "Role (C u)") auto

lemma handlePaymentProposeMsg_settle:
  assumes "State (C u) = Open \<or> State (C u) = PaymentProposed
             \<or> State (C u) = AwaitingPaymentMerge"
    and "PaymentProposeMsg m = Some payment"
    and "0 \<le> sint (PaymentAmount payment)"
    and "sint (PaymentAmount payment)
           \<le> sint (case Role (C u) of Guest \<Rightarrow> HostAmount (C u) | Host \<Rightarrow> GuestAmount (C u))"
    and "keypair_Parse env (case Role (C u) of Guest \<Rightarrow> EscrowAcct (C u)
                                             | Host \<Rightarrow> GuestAcct (C u)) = Inr key"
    and "proposeSettleTxes env u (proposeCh2 (C u) payment) key payment = Inl r"
  shows "handlePaymentProposeMsg env m u = r"
  using assms unfolding handlePaymentProposeMsg_def Let_def
  by (cases "Role (C u)") auto

lemma setCounterpartySettlementTxes_snd:
  "\<exists>lg lh. snd (setCounterpartySettlementTxes env ch g h gs hs seed) =
     ch\<lparr>CounterpartyLatestSettleWithGuestTx := lg, CounterpartyLatestSettleWithHostTx := lh\<rparr>"
proof -
  obtain r ch' where e: "setCounterpartySettlementTxes env ch g h gs hs seed = (r, ch')"
    by (cases "setCounterpartySettlementTxes env ch g h gs hs seed")
  from setCounterpartySettlementTxes_frame [OF e] e show ?thesis
    by (metis snd_conv)
qed

lemma signMsg_Some:
  "signMsg env m0 seed = (Some m, r) \<Longrightarrow> \<exists>sig. m = m0\<lparr>Signature := sig\<rparr>"
  by (auto simp: signMsg_def split: option.splits sum.splits prod.splits)

lemma transitionTo_Err:
  "transitionTo env s v = (r, u') \<Longrightarrow> r \<noteq> Ok \<Longrightarrow>
     \<exists>e. r = Err e \<and> effects env s v = Inl e \<and> u' = v\<lparr>C := (C v)\<lparr>State := s\<rparr>\<rparr>"
  by (auto simp: transitionTo_def Let_def split: sum.splits)

lemma setCounterpartySettlementTxes_State:
  "State (snd (setCounterpartySettlementTxes env ch g h gs hs seed)) = State ch"
  using setCounterpartySettlementTxes_snd [of env ch g h gs hs seed] by auto

lemma setCounterpartySettlementTxes_RoundNumber:
  "RoundNumber (snd (setCounterpartySettlementTxes env ch g h gs hs seed)) = RoundNumber ch"
  using setCounterpartySettlementTxes_snd [of env ch g h gs hs seed] by auto

lemma setLatestSettlementTxes_State:
  "State (snd (setLatestSettlementTxes env ch g h gs hs seed)) = State ch"
proof -
  obtain r ch' where e: "setCounterpartySettlementTxes env ch g h
      (case gs of None \<Rightarrow> zeroSig | Some sig \<Rightarrow> sig) hs seed = (r, ch')"
    by (cases "setCounterpartySettlementTxes env ch g h
      (case gs of None \<Rightarrow> zeroSig | Some sig \<Rightarrow> sig) hs seed")
  from setCounterpartySettlementTxes_State [of env ch g h
      "case gs of None \<Rightarrow> zeroSig | Some sig \<Rightarrow> sig" hs seed] e
  have "State ch' = State ch" by simp
  with e show ?thesis
    by (cases r) (simp_all add: setLatestSettlementTxes_def)
qed

lemma signRatchetTx_State:
  "State (snd (signRatchetTx env ch tx sig seed)) = State ch"
  by (simp add: signRatchetTx_def split: sum.splits)

text \<open>
  A failed transition of \<open>proposeCommit\<close>: the error is that of the emission on entering
  the state the channel is left in, raised on the updater as it was just before.
\<close>

lemma proposeCommit_Err:
  assumes "proposeCommit env u payment g h = (r, u')" and "r \<noteq> Ok"
  shows "\<exists>e. r = Err e \<and>
           State (C u') \<in> {PaymentAccepted, PaymentProposed, AwaitingPaymentMerge} \<and>
           u' = u\<lparr>C := C u'\<rparr> \<and>
           effects env (State (C u')) (u\<lparr>C := (C u')\<lparr>State := State (C u)\<rparr>\<rparr>) = Inl e"
proof -
  have tie: "\<exists>e. r = Err e \<and> State (C u') = s \<and> u' = u\<lparr>C := C u'\<rparr> \<and>
           effects env (State (C u')) (u\<lparr>C := (C u')\<lparr>State := State (C u)\<rparr>\<rparr>) = Inl e"
    if t: "transitionTo env s (u\<lparr>C := cv\<rparr>) = (r, u')" and sv: "State cv = State (C u)"
    for s cv
  proof -
    from transitionTo_Err [OF t assms(2)] obtain e where e: "r = Err e"
      and f: "effects env s (u\<lparr>C := cv\<rparr>) = Inl e"
      and u': "u' = u\<lparr>C := cv\<lparr>State := s\<rparr>\<rparr>"
      by auto
    have "(C u')\<lparr>State := State (C u)\<rparr> = cv"
      using sv by (cases cv) (simp add: u')
    with e f u' show ?thesis by simp
  qed
  have "fst (proposeCommit env u payment g h) = Ok \<or>
        (\<exists>s cv. proposeCommit env u payment g h = transitionTo env s (u\<lparr>C := cv\<rparr>) \<and>
                State cv = State (C u) \<and>
                s \<in> {PaymentAccepted, PaymentProposed, AwaitingPaymentMerge})"
    (is "?ok \<or> ?tr")
  proof (cases "?ok")
    case True
    then show ?thesis by simp
  next
    case False
    consider (acc) "State (C u) = Open \<or> State (C u) = AwaitingPaymentMerge"
      | (collide) "State (C u) = PaymentProposed"
      | (other) "State (C u) \<noteq> Open" "State (C u) \<noteq> AwaitingPaymentMerge"
          "State (C u) \<noteq> PaymentProposed"
      by blast
    then have ?tr
    proof cases
      case acc
      define c1 where "c1 = (if State (C u) = AwaitingPaymentMerge then C u
                    else (C u)\<lparr>PendingAmountReceived := PaymentAmount payment\<rparr>)"
      define c2 where "c2 = snd (setCounterpartySettlementTxes env c1 g h
          (SenderSettleWithGuestSig payment) (SenderSettleWithHostSig payment) (Seed u))"
      define c4 where "c4 = c2\<lparr>PendingPaymentTime := PaymentProposeMsg.PaymentTime payment,
          RoundNumber := RoundNumber c2 + 1\<rparr>"
      have s4: "State c4 = State (C u)"
        by (simp add: c4_def c2_def c1_def setCounterpartySettlementTxes_State)
      from acc False have "proposeCommit env u payment g h
          = transitionTo env PaymentAccepted (u\<lparr>C := c4\<rparr>)"
        unfolding proposeCommit_def Let_def c4_def c2_def c1_def
        by (simp split: if_splits)
      with s4 show ?thesis by blast
    next
      case collide
      show ?thesis
      proof (cases "sint (PendingAmountSent (C u)) > sint (PaymentAmount payment) \<or>
                (PendingAmountSent (C u) = PaymentAmount payment \<and> Role (C u) = Host)")
        case True
        with collide False have "proposeCommit env u payment g h
          = transitionTo env PaymentProposed
              (u\<lparr>C := (C u)\<lparr>RoundNumber := RoundNumber (C u) + 1,
                   PendingAmountSent := PendingAmountSent (C u) - PaymentAmount payment\<rparr>\<rparr>)"
          unfolding proposeCommit_def Let_def
          by (auto split: if_splits)
        moreover have "State ((C u)\<lparr>RoundNumber := RoundNumber (C u) + 1,
                   PendingAmountSent := PendingAmountSent (C u) - PaymentAmount payment\<rparr>)
                 = State (C u)"
          by simp
        ultimately show ?thesis by blast
      next
        case nw: False
        with collide False have "proposeCommit env u payment g h
          = transitionTo env AwaitingPaymentMerge
              (u\<lparr>C := (C u)\<lparr>PendingAmountReceived := PaymentAmount payment\<rparr>\<rparr>)"
          unfolding proposeCommit_def Let_def
          by (auto split: if_splits)
        moreover have "State ((C u)\<lparr>PendingAmountReceived := PaymentAmount payment\<rparr>)
                 = State (C u)"
          by simp
        ultimately show ?thesis by blast
      qed
    next
      case other
      with False show ?thesis
        by (simp add: proposeCommit_def)
    qed
    then show ?thesis by simp
  qed
  with assms obtain s cv where "transitionTo env s (u\<lparr>C := cv\<rparr>) = (r, u')"
    and "State cv = State (C u)"
    and "s \<in> {PaymentAccepted, PaymentProposed, AwaitingPaymentMerge}"
    by auto
  with tie [of s cv] show ?thesis
    by auto
qed

section \<open>Claims\<close>

text \<open>
  C1. \<open>handlePaymentAcceptMsg\<close> has no check of the state (every other handler opens with
  one). Called on the guest's channel in state \<open>AwaitingPaymentMerge\<close>, with 30 proposed
  and 50 received pending, it returns \<^verbatim>\<open>nil\<close> when the signatures verify: the 30 are
  moved to the host, the pending 50 are forgotten and the channel is \<open>Open\<close>. When the
  signatures do not verify it returns the verification error, not \<open>ErrUnexpectedState\<close>,
  and the balances are already moved.
\<close>

theorem handlePaymentAcceptMsg_ignores_state:
  "State (C mergeUpd) = AwaitingPaymentMerge \<and>
   fst (handlePaymentAcceptMsg okEnv acceptMsg0 mergeUpd) = Ok \<and>
   State (C (snd (handlePaymentAcceptMsg okEnv acceptMsg0 mergeUpd))) = Open \<and>
   HostAmount (C mergeUpd) = 900 \<and> GuestAmount (C mergeUpd) = 100 \<and>
   HostAmount (C (snd (handlePaymentAcceptMsg okEnv acceptMsg0 mergeUpd))) = 930 \<and>
   GuestAmount (C (snd (handlePaymentAcceptMsg okEnv acceptMsg0 mergeUpd))) = 70 \<and>
   PendingAmountReceived (C mergeUpd) = 50 \<and>
   PendingAmountReceived (C (snd (handlePaymentAcceptMsg okEnv acceptMsg0 mergeUpd))) = 0 \<and>
   handlePaymentAcceptMsg badSigEnv acceptMsg0 mergeUpd =
     (Err (Wrap (External ''signature verification failed'') ''ratchet tx''),
      mergeUpd\<lparr>C := (C mergeUpd)\<lparr>GuestAmount := 70, HostAmount := 930\<rparr>\<rparr>)"
  by (simp add: handlePaymentAcceptMsg_def acceptGuestTx_def example_defs helper_defs)

text \<open>
  C2, as stated, fails: \<open>handlePaymentCompleteMsg\<close> applies the pending payment to the
  balances before it verifies the ratchet signature, so a message whose signature does
  not verify returns an error with the balances already changed.
\<close>

theorem handler_error_not_atomic_counterexample:
  "handlePaymentCompleteMsg badSigEnv completeMsg0 acceptedUpd =
     (Err (Wrap (External ''signature verification failed'') ''ratchet tx''),
      acceptedUpd\<lparr>C := (C acceptedUpd)\<lparr>GuestAmount := 150, HostAmount := 850\<rparr>\<rparr>) \<and>
   GuestAmount (C acceptedUpd) = 100 \<and> HostAmount (C acceptedUpd) = 900"
  by (simp add: handlePaymentCompleteMsg_def example_defs helper_defs)

text \<open>
  C2, amended. The handlers do not roll back; what they leave on an error is this.
  \<^item> \<open>handleChannelProposeMsg\<close>, \<open>handlePaymentProposeMsg\<close> and \<open>handleCloseMsg\<close> write to
    the channel only after their last check. When one of them does not return \<^verbatim>\<open>nil\<close>,
    the channel equals its value before the call, with one exception: the error is the
    one raised by the emission on entering the new state, on the updater as it was
    just before, and the channel is then the committed one in its new state.
  \<^item> \<open>handleChannelAcceptMsg\<close> writes nothing to the channel up to and including the
    verification of the round-1 ratchet signature: its errors for a wrong state, for the
    key, for building the ratchet transaction and for that signature leave the channel
    as it was. An error after that finds the ratchet transaction stored (or is the
    error of the emission on entering \<open>AwaitingFunding\<close>).
  \<^item> \<open>handlePaymentCompleteMsg\<close> called in a wrong state returns \<open>ErrUnexpectedState\<close> and
    leaves the updater as it was.
\<close>

theorem handler_errors_before_commit:
  "(handleChannelProposeMsg env m u = (r, u') \<and> r \<noteq> Ok \<longrightarrow>
      C u' = C u \<or>
      (\<exists>e. r = Err e \<and> State (C u) = Start \<and> State (C u') = AwaitingFunding \<and>
           u' = u\<lparr>C := C u'\<rparr> \<and>
           effects env AwaitingFunding (u\<lparr>C := (C u')\<lparr>State := Start\<rparr>\<rparr>) = Inl e)) \<and>
   (handlePaymentProposeMsg env m u = (r, u') \<and> r \<noteq> Ok \<longrightarrow>
      C u' = C u \<or>
      (\<exists>e. r = Err e \<and>
           State (C u') \<in> {PaymentAccepted, PaymentProposed, AwaitingPaymentMerge} \<and>
           u' = u\<lparr>C := C u'\<rparr> \<and>
           effects env (State (C u')) (u\<lparr>C := (C u')\<lparr>State := State (C u)\<rparr>\<rparr>) = Inl e)) \<and>
   (handleCloseMsg env m u = (r, u') \<and> r \<noteq> Ok \<longrightarrow>
      C u' = C u \<or>
      (\<exists>e close. r = Err e \<and> CloseMsg m = Some close \<and>
           u' = u\<lparr>C := (C u)\<lparr>CounterpartyCoopCloseSig := CooperativeCloseSig close,
                             State := AwaitingClose\<rparr>\<rparr> \<and>
           effects env AwaitingClose
             (u\<lparr>C := (C u)\<lparr>CounterpartyCoopCloseSig := CooperativeCloseSig close\<rparr>\<rparr>)
             = Inl e)) \<and>
   (handleChannelAcceptMsg env m u = (r, u') \<and> r \<noteq> Ok \<longrightarrow>
      C u' = C u \<or>
      (\<exists>key ratchetTx accept.
           keypair_Parse env (GuestAcct (C u)) = Inr key \<and>
           buildRatchetTx env (C u) (FundingTime (C u)) (HostRatchetAcct (C u))
             (HostRatchetAcctSeqNum (C u)) = Inr ratchetTx \<and>
           ChannelAcceptMsg m = Some accept \<and>
           verifySig env ratchetTx key (GuestRatchetRound1Sig accept) = None \<and>
           (C u' = snd (signRatchetTx env (C u) ratchetTx (GuestRatchetRound1Sig accept)
                          (Seed u)) \<or>
            (\<exists>e. r = Err e \<and> State (C u') = AwaitingFunding \<and>
                 effects env AwaitingFunding (u'\<lparr>C := (C u')\<lparr>State := ChannelProposed\<rparr>\<rparr>)
                   = Inl e)))) \<and>
   (State (C u) \<noteq> PaymentAccepted \<longrightarrow>
      handlePaymentCompleteMsg env m u = (Err (WrapState ErrUnexpectedState (State (C u))), u)) \<and>
   (State (C u) \<noteq> ChannelProposed \<longrightarrow>
      handleChannelAcceptMsg env m u = (Err (WrapState ErrUnexpectedState (State (C u))), u))"
proof (intro conjI impI)
  assume a: "handleChannelProposeMsg env m u = (r, u') \<and> r \<noteq> Ok"
  show "C u' = C u \<or>
      (\<exists>e. r = Err e \<and> State (C u) = Start \<and> State (C u') = AwaitingFunding \<and>
           u' = u\<lparr>C := C u'\<rparr> \<and>
           effects env AwaitingFunding (u\<lparr>C := (C u')\<lparr>State := Start\<rparr>\<rparr>) = Inl e)"
  proof (cases "C u' = C u")
    case True
    then show ?thesis by simp
  next
    case False
    with a have "State (C u) = Start \<and>
        (\<exists>cv. transitionTo env AwaitingFunding (u\<lparr>C := cv\<rparr>) = (r, u') \<and> State cv = Start)"
      unfolding handleChannelProposeMsg_def Let_def
      by (auto simp: debugf_C zeroChannel_def split: if_splits option.splits sum.splits
          intro!: exI)
    then obtain cv where st: "State (C u) = Start" and sv: "State cv = Start"
      and t: "transitionTo env AwaitingFunding (u\<lparr>C := cv\<rparr>) = (r, u')"
      by blast
    from transitionTo_Err [OF t] a obtain e where e: "r = Err e"
      and f: "effects env AwaitingFunding (u\<lparr>C := cv\<rparr>) = Inl e"
      and u': "u' = u\<lparr>C := cv\<lparr>State := AwaitingFunding\<rparr>\<rparr>"
      by auto
    have "(C u')\<lparr>State := Start\<rparr> = cv"
      using sv by (cases cv) (simp add: u')
    with e f u' st show ?thesis by simp
  qed
next
  assume a: "handlePaymentProposeMsg env m u = (r, u') \<and> r \<noteq> Ok"
  show "C u' = C u \<or>
      (\<exists>e. r = Err e \<and>
           State (C u') \<in> {PaymentAccepted, PaymentProposed, AwaitingPaymentMerge} \<and>
           u' = u\<lparr>C := C u'\<rparr> \<and>
           effects env (State (C u')) (u\<lparr>C := (C u')\<lparr>State := State (C u)\<rparr>\<rparr>) = Inl e)"
  proof (cases "C u' = C u")
    case True
    then show ?thesis by simp
  next
    case False
    with a obtain payment g h where "proposeCommit env u payment g h = (r, u')"
      unfolding handlePaymentProposeMsg_def Let_def
      by (auto simp: debugf_C
          split: if_splits option.splits sum.splits prod.splits Role.splits
          dest!: proposeSettleTxes_Inl)
    from proposeCommit_Err [OF this] a show ?thesis
      by blast
  qed
next
  assume a: "handleCloseMsg env m u = (r, u') \<and> r \<noteq> Ok"
  show "C u' = C u \<or>
      (\<exists>e close. r = Err e \<and> CloseMsg m = Some close \<and>
           u' = u\<lparr>C := (C u)\<lparr>CounterpartyCoopCloseSig := CooperativeCloseSig close,
                             State := AwaitingClose\<rparr>\<rparr> \<and>
           effects env AwaitingClose
             (u\<lparr>C := (C u)\<lparr>CounterpartyCoopCloseSig := CooperativeCloseSig close\<rparr>\<rparr>)
             = Inl e)"
  proof (cases "C u' = C u")
    case True
    then show ?thesis by simp
  next
    case False
    with a obtain close where c: "CloseMsg m = Some close"
      and t: "transitionTo env AwaitingClose
          (u\<lparr>C := (C u)\<lparr>CounterpartyCoopCloseSig := CooperativeCloseSig close\<rparr>\<rparr>) = (r, u')"
      unfolding handleCloseMsg_def Let_def
      by (auto split: if_splits option.splits sum.splits)
    from transitionTo_Err [OF t] a c show ?thesis
      by auto
  qed
next
  assume a: "handleChannelAcceptMsg env m u = (r, u') \<and> r \<noteq> Ok"
  show "C u' = C u \<or>
      (\<exists>key ratchetTx accept.
           keypair_Parse env (GuestAcct (C u)) = Inr key \<and>
           buildRatchetTx env (C u) (FundingTime (C u)) (HostRatchetAcct (C u))
             (HostRatchetAcctSeqNum (C u)) = Inr ratchetTx \<and>
           ChannelAcceptMsg m = Some accept \<and>
           verifySig env ratchetTx key (GuestRatchetRound1Sig accept) = None \<and>
           (C u' = snd (signRatchetTx env (C u) ratchetTx (GuestRatchetRound1Sig accept)
                          (Seed u)) \<or>
            (\<exists>e. r = Err e \<and> State (C u') = AwaitingFunding \<and>
                 effects env AwaitingFunding (u'\<lparr>C := (C u')\<lparr>State := ChannelProposed\<rparr>\<rparr>)
                   = Inl e)))"
  proof (cases "C u' = C u")
    case True
    then show ?thesis by simp
  next
    case False
    define u1 where "u1 = u\<lparr>H := (H u)\<lparr>Seqnum := Seqnum (H u) + 1\<rparr>\<rparr>"
    from a False obtain key ratchetTx accept where
      k: "keypair_Parse env (GuestAcct (C u)) = Inr key" and
      b: "buildRatchetTx env (C u) (FundingTime (C u)) (HostRatchetAcct (C u))
             (HostRatchetAcctSeqNum (C u)) = Inr ratchetTx" and
      ms: "ChannelAcceptMsg m = Some accept" and
      v: "verifySig env ratchetTx key (GuestRatchetRound1Sig accept) = None" and
      st: "State (C u) = ChannelProposed"
      unfolding handleChannelAcceptMsg_def Let_def
      by (auto simp: debugf_C split: if_splits option.splits sum.splits)
    define c1 where "c1 = snd (signRatchetTx env (C u) ratchetTx (GuestRatchetRound1Sig accept)
                          (Seed u))"
    define cf where "cf = snd (setLatestSettlementTxes env c1 None
        (case buildSettleOnlyWithHostTx env c1 (FundingTime c1) of Inr t \<Rightarrow> t) None
        (GuestSettleOnlyWithHostSig accept) (Seed u))"
    have scf: "State cf = ChannelProposed"
      by (simp add: cf_def c1_def setLatestSettlementTxes_State signRatchetTx_State st)
    from a k b ms v st False
    have "C u' = c1 \<or> transitionTo env AwaitingFunding (u1\<lparr>C := cf\<rparr>) = (r, u')"
      unfolding handleChannelAcceptMsg_def Let_def c1_def [symmetric] u1_def [symmetric]
        cf_def
      by (auto simp: debugf_C c1_def [symmetric] split: if_splits option.splits sum.splits)
    then have "C u' = c1 \<or>
            (\<exists>e. r = Err e \<and> State (C u') = AwaitingFunding \<and>
                 effects env AwaitingFunding (u'\<lparr>C := (C u')\<lparr>State := ChannelProposed\<rparr>\<rparr>)
                   = Inl e)"
    proof
      assume "C u' = c1"
      then show ?thesis by simp
    next
      assume t: "transitionTo env AwaitingFunding (u1\<lparr>C := cf\<rparr>) = (r, u')"
      from transitionTo_Err [OF t] a obtain e where e: "r = Err e"
        and f: "effects env AwaitingFunding (u1\<lparr>C := cf\<rparr>) = Inl e"
        and u': "u' = u1\<lparr>C := cf\<lparr>State := AwaitingFunding\<rparr>\<rparr>"
        by auto
      have "u'\<lparr>C := (C u')\<lparr>State := ChannelProposed\<rparr>\<rparr> = u1\<lparr>C := cf\<rparr>"
        using scf by (cases cf) (simp add: u')
      with e f u' show ?thesis by simp
    qed
    with k b ms v show ?thesis
      unfolding c1_def by blast
  qed
next
  assume "State (C u) \<noteq> PaymentAccepted"
  then show "handlePaymentCompleteMsg env m u
               = (Err (WrapState ErrUnexpectedState (State (C u))), u)"
    by (simp add: handlePaymentCompleteMsg_def)
next
  assume "State (C u) \<noteq> ChannelProposed"
  then show "handleChannelAcceptMsg env m u
               = (Err (WrapState ErrUnexpectedState (State (C u))), u)"
    by (simp add: handleChannelAcceptMsg_def)
qed

theorem handler_errors_before_commit_witness:
  "handleChannelProposeMsg okEnv channelProposeMsg0 upd0 = (Err ErrChannelExists, upd0) \<and>
   handlePaymentProposeMsg badSigEnv (proposeMsg 6 40) upd0 =
     (Err (Wrap (External ''signature verification failed'') ''settle with guest tx''), upd0) \<and>
   handleCloseMsg badSigEnv closeMsg0 upd0 =
     (Err (Wrap (External ''signature verification failed'') ''coop close tx''), upd0) \<and>
   handleCloseMsg badEmitEnv closeMsg0 upd0 =
     (Err (External ''emission failed''),
      upd0\<lparr>C := chan0\<lparr>CounterpartyCoopCloseSig := someSig, State := AwaitingClose\<rparr>\<rparr>) \<and>
   effects badEmitEnv AwaitingClose (upd0\<lparr>C := chan0\<lparr>CounterpartyCoopCloseSig := someSig\<rparr>\<rparr>)
     = Inl (External ''emission failed'') \<and>
   handleChannelAcceptMsg badSigEnv channelAcceptMsg0 channelProposedUpd =
     (Err (Wrap (External ''signature verification failed'')
             ''invalid signature on round 1 ratchet tx''),
      channelProposedUpd\<lparr>H := \<lparr>Seqnum = 4\<rparr>\<rparr>) \<and>
   C (snd (handleChannelAcceptMsg badSigEnv channelAcceptMsg0 channelProposedUpd))
     = C channelProposedUpd \<and>
   State (C upd0) = Open \<and>
   handlePaymentCompleteMsg okEnv completeMsg0 upd0
     = (Err (WrapState ErrUnexpectedState Open), upd0) \<and>
   handleChannelAcceptMsg okEnv channelAcceptMsg0 upd0
     = (Err (WrapState ErrUnexpectedState Open), upd0)"
proof -
  note hb = handler_errors_before_commit
  have st: "State (C upd0) = Open"
    by (simp add: example_defs)
  have cp: "handleChannelProposeMsg okEnv channelProposeMsg0 upd0 = (Err ErrChannelExists, upd0)"
    by (simp add: handleChannelProposeMsg_def example_defs helper_defs)
  have pp: "handlePaymentProposeMsg badSigEnv (proposeMsg 6 40) upd0 =
     (Err (Wrap (External ''signature verification failed'') ''settle with guest tx''), upd0)"
    by (simp add: handlePaymentProposeMsg_def proposeSettleTxes_def proposeCh2_def
        example_defs helper_defs)
  have cl: "handleCloseMsg badSigEnv closeMsg0 upd0 =
     (Err (Wrap (External ''signature verification failed'') ''coop close tx''), upd0)"
    by (simp add: handleCloseMsg_def example_defs helper_defs)
  have ce: "handleCloseMsg badEmitEnv closeMsg0 upd0 =
     (Err (External ''emission failed''),
      upd0\<lparr>C := chan0\<lparr>CounterpartyCoopCloseSig := someSig, State := AwaitingClose\<rparr>\<rparr>)"
    by (simp add: handleCloseMsg_def example_defs helper_defs)
  have changed: "C (upd0\<lparr>C := chan0\<lparr>CounterpartyCoopCloseSig := someSig,
                                   State := AwaitingClose\<rparr>\<rparr>) \<noteq> C upd0"
    by (simp add: example_defs)
  have cm: "CloseMsg closeMsg0 = Some \<lparr>CooperativeCloseSig = someSig\<rparr>"
    by (simp add: example_defs)
  have c0: "C upd0 = chan0"
    by (simp add: upd0_def)
  define uc where
    "uc = upd0\<lparr>C := chan0\<lparr>CounterpartyCoopCloseSig := someSig, State := AwaitingClose\<rparr>\<rparr>"
  have ce': "handleCloseMsg badEmitEnv closeMsg0 upd0 = (Err (External ''emission failed''), uc)"
    by (simp add: ce uc_def)
  have "C uc = C upd0 \<or>
      (\<exists>e close. Err (External ''emission failed'') = Err e \<and> CloseMsg closeMsg0 = Some close \<and>
           uc = upd0\<lparr>C := (C upd0)\<lparr>CounterpartyCoopCloseSig := CooperativeCloseSig close,
                             State := AwaitingClose\<rparr>\<rparr> \<and>
           effects badEmitEnv AwaitingClose
             (upd0\<lparr>C := (C upd0)\<lparr>CounterpartyCoopCloseSig := CooperativeCloseSig close\<rparr>\<rparr>)
             = Inl e)"
    by (rule hb [of badEmitEnv closeMsg0 upd0 "Err (External ''emission failed'')" uc,
          THEN conjunct2, THEN conjunct2, THEN conjunct1, THEN mp]) (simp add: ce')
  moreover have "C uc \<noteq> C upd0"
    using changed by (simp add: uc_def)
  ultimately obtain e close where "Err (External ''emission failed'') = Err e"
    and "CloseMsg closeMsg0 = Some close"
    and "effects badEmitEnv AwaitingClose
             (upd0\<lparr>C := (C upd0)\<lparr>CounterpartyCoopCloseSig := CooperativeCloseSig close\<rparr>\<rparr>)
             = Inl e"
    by blast
  with cm c0 have a3: "effects badEmitEnv AwaitingClose
      (upd0\<lparr>C := chan0\<lparr>CounterpartyCoopCloseSig := someSig\<rparr>\<rparr>)
        = Inl (External ''emission failed'')"
    by simp
  have ca: "handleChannelAcceptMsg badSigEnv channelAcceptMsg0 channelProposedUpd =
     (Err (Wrap (External ''signature verification failed'')
             ''invalid signature on round 1 ratchet tx''),
      channelProposedUpd\<lparr>H := \<lparr>Seqnum = 4\<rparr>\<rparr>)"
    by (simp add: handleChannelAcceptMsg_def After_def Add_def example_defs helper_defs)
  define ua where "ua = channelProposedUpd\<lparr>H := \<lparr>Seqnum = 4\<rparr>\<rparr>"
  have nov: "verifySig badSigEnv t k s \<noteq> None" for t k s
    by (simp add: example_defs)
  have "C ua = C channelProposedUpd \<or>
      (\<exists>key ratchetTx accept.
           keypair_Parse badSigEnv (GuestAcct (C channelProposedUpd)) = Inr key \<and>
           buildRatchetTx badSigEnv (C channelProposedUpd) (FundingTime (C channelProposedUpd))
             (HostRatchetAcct (C channelProposedUpd))
             (HostRatchetAcctSeqNum (C channelProposedUpd)) = Inr ratchetTx \<and>
           ChannelAcceptMsg channelAcceptMsg0 = Some accept \<and>
           verifySig badSigEnv ratchetTx key (GuestRatchetRound1Sig accept) = None \<and>
           (C ua = snd (signRatchetTx badSigEnv (C channelProposedUpd) ratchetTx
                          (GuestRatchetRound1Sig accept) (Seed channelProposedUpd)) \<or>
            (\<exists>e. Err (Wrap (External ''signature verification failed'')
                        ''invalid signature on round 1 ratchet tx'') = Err e \<and>
                 State (C ua) = AwaitingFunding \<and>
                 effects badSigEnv AwaitingFunding (ua\<lparr>C := (C ua)\<lparr>State := ChannelProposed\<rparr>\<rparr>)
                   = Inl e)))"
    by (rule hb [of badSigEnv channelAcceptMsg0 channelProposedUpd
          "Err (Wrap (External ''signature verification failed'')
             ''invalid signature on round 1 ratchet tx'')" ua,
          THEN conjunct2, THEN conjunct2, THEN conjunct2, THEN conjunct1, THEN mp])
       (simp add: ca ua_def)
  with nov have "C ua = C channelProposedUpd"
    by blast
  then have a4: "C (snd (handleChannelAcceptMsg badSigEnv channelAcceptMsg0 channelProposedUpd))
     = C channelProposedUpd"
    by (simp add: ca ua_def)
  have a5: "handlePaymentCompleteMsg okEnv completeMsg0 upd0
          = (Err (WrapState ErrUnexpectedState Open), upd0)"
    using hb [of okEnv completeMsg0 upd0, THEN conjunct2, THEN conjunct2, THEN conjunct2,
        THEN conjunct2, THEN conjunct1] st
    by simp
  have a6: "handleChannelAcceptMsg okEnv channelAcceptMsg0 upd0
          = (Err (WrapState ErrUnexpectedState Open), upd0)"
    using hb [of okEnv channelAcceptMsg0 upd0, THEN conjunct2, THEN conjunct2, THEN conjunct2,
        THEN conjunct2, THEN conjunct2] st
    by simp
  from st cp pp cl ce a3 ca a4 a5 a6 show ?thesis
    by simp
qed

text \<open>
  C3, as stated, fails: in state \<open>Open\<close> at round 5, a proposal for round 5 satisfies
  "message round \<open>\<ge>\<close> channel round" and is dropped all the same; the proposal for round
  6, the same otherwise, is accepted. And a proposal for the smaller round 4 whose
  signature does not verify is not dropped in silence: the signatures are checked before
  the round, and it returns the verification error.
\<close>

theorem equal_round_dropped_counterexample:
  "State (C upd0) = Open \<and> RoundNumber (C upd0) = 5 \<and>
   handlePaymentProposeMsg okEnv (proposeMsg 5 40) upd0 =
     (Ok, debugf ''dropped message: payment round %d for channel round %d'' upd0) \<and>
   fst (handlePaymentProposeMsg okEnv (proposeMsg 6 40) upd0) = Ok \<and>
   State (C (snd (handlePaymentProposeMsg okEnv (proposeMsg 6 40) upd0))) = PaymentAccepted \<and>
   handlePaymentProposeMsg badSigEnv (proposeMsg 4 40) upd0 =
     (Err (Wrap (External ''signature verification failed'') ''settle with guest tx''), upd0)"
  by (simp add: handlePaymentProposeMsg_def proposeSettleTxes_def proposeCh2_def
      proposeCommit_def After_def Before_def Add_def example_defs helper_defs)

text \<open>
  C3, amended. In the states \<open>Open\<close> and \<open>AwaitingPaymentMerge\<close> the round check comes
  after the checks of the amount, the key and the signatures (lines 326-396), for a
  proposal whose amount is within the counterparty's balance and whose key parses:
  \<^item> a proposal that fails in the settlement step (a transaction that cannot be built, a
    settle-with-guest signature that is unused or does not verify) or whose
    settle-with-host signature does not verify returns that error, whatever its round
    number, and the channel is unchanged;
  \<^item> a verified proposal whose round number is less than or equal to the channel's is
    dropped: \<^verbatim>\<open>nil\<close> is returned, a debug line is written, the channel is unchanged;
  \<^item> a verified proposal whose round number is strictly greater passes the round check;
    when it also passes the checks of its time (and, in \<open>AwaitingPaymentMerge\<close>, of the
    merged amount) the handler commits it: \<open>PendingAmountReceived\<close> is the amount (in
    \<open>Open\<close>), the built transactions and the sender's signatures are handed to
    \<open>setCounterpartySettlementTxes\<close>, whose error is ignored (lines 424-425),
    \<open>PendingPaymentTime\<close> is the proposal's time, \<open>RoundNumber\<close> grows by one, and the
    handler returns what the transition to \<open>PaymentAccepted\<close> returns. When our own
    signatures over them can be made, the counterparty-latest pair holds exactly the
    built transactions with the sender's signatures; when the first cannot, the pair
    stays as it was.
\<close>

theorem handlePaymentProposeMsg_round_check:
  fixes env m u payment key g h
  defines "c1 \<equiv> (if State (C u) = AwaitingPaymentMerge then C u
                  else (C u)\<lparr>PendingAmountReceived := PaymentAmount payment\<rparr>)"
  defines "c4 \<equiv> (snd (setCounterpartySettlementTxes env c1 g h
                         (SenderSettleWithGuestSig payment) (SenderSettleWithHostSig payment)
                         (Seed u)))
                  \<lparr>PendingPaymentTime := PaymentProposeMsg.PaymentTime payment,
                   RoundNumber := RoundNumber (C u) + 1\<rparr>"
  assumes "State (C u) = Open \<or> State (C u) = AwaitingPaymentMerge"
    and "PaymentProposeMsg m = Some payment"
    and "0 \<le> sint (PaymentAmount payment)"
    and "sint (PaymentAmount payment)
           \<le> sint (case Role (C u) of Guest \<Rightarrow> HostAmount (C u) | Host \<Rightarrow> GuestAmount (C u))"
    and "keypair_Parse env (case Role (C u) of Guest \<Rightarrow> EscrowAcct (C u)
                                             | Host \<Rightarrow> GuestAcct (C u)) = Inr key"
  shows
    "(proposeSettleTxes env u (proposeCh2 (C u) payment) key payment = Inl res \<longrightarrow>
        handlePaymentProposeMsg env m u = res \<and> fst res \<noteq> Ok \<and> C (snd res) = C u) \<and>
     (proposeSettleTxes env u (proposeCh2 (C u) payment) key payment = Inr (g, h) \<and>
      verifySig env h key (SenderSettleWithHostSig payment) = Some e \<longrightarrow>
        handlePaymentProposeMsg env m u = (Err (Wrap e ''settle with host tx''), u)) \<and>
     (proposeSettleTxes env u (proposeCh2 (C u) payment) key payment = Inr (g, h) \<and>
      verifySig env h key (SenderSettleWithHostSig payment) = None \<longrightarrow>
        (PaymentProposeMsg.RoundNumber payment \<le> RoundNumber (C u) \<longrightarrow>
           handlePaymentProposeMsg env m u =
             (Ok, debugf ''dropped message: payment round %d for channel round %d'' u) \<and>
           C (snd (handlePaymentProposeMsg env m u)) = C u) \<and>
        (RoundNumber (C u) < PaymentProposeMsg.RoundNumber payment \<and>
         \<not> After (LedgerTime u)
              (Add (PaymentProposeMsg.PaymentTime payment) (MaxRoundDuration (C u))) \<and>
         \<not> Before (LedgerTime u)
              (Add (PaymentProposeMsg.PaymentTime payment) (- 1 * MaxRoundDuration (C u))) \<and>
         \<not> Before (PaymentProposeMsg.PaymentTime payment) (PaymentTime (C u)) \<and>
         (State (C u) = AwaitingPaymentMerge \<longrightarrow>
            PaymentAmount payment = PendingAmountReceived (C u) - PendingAmountSent (C u)) \<longrightarrow>
           handlePaymentProposeMsg env m u = transitionTo env PaymentAccepted (u\<lparr>C := c4\<rparr>) \<and>
           C (snd (handlePaymentProposeMsg env m u)) = c4\<lparr>State := PaymentAccepted\<rparr> \<and>
           (detachedSig env h (Seed u) (Channel.Passphrase (C u)) (KeyIndex (C u))
              = Inr oursHost \<and> g = None \<longrightarrow>
              C (snd (handlePaymentProposeMsg env m u)) =
                c1\<lparr>CounterpartyLatestSettleWithGuestTx := None,
                   CounterpartyLatestSettleWithHostTx :=
                     \<lparr>Tx = h, Signatures = [oursHost, SenderSettleWithHostSig payment]\<rparr>,
                   PendingPaymentTime := PaymentProposeMsg.PaymentTime payment,
                   RoundNumber := RoundNumber (C u) + 1,
                   State := PaymentAccepted\<rparr>) \<and>
           (detachedSig env h (Seed u) (Channel.Passphrase (C u)) (KeyIndex (C u))
              = Inr oursHost \<and> g = Some guestTx \<and>
            detachedSig env guestTx (Seed u) (Channel.Passphrase (C u)) (KeyIndex (C u))
              = Inr oursGuest \<longrightarrow>
              C (snd (handlePaymentProposeMsg env m u)) =
                c1\<lparr>CounterpartyLatestSettleWithGuestTx :=
                     Some \<lparr>Tx = guestTx,
                           Signatures = [oursGuest, SenderSettleWithGuestSig payment]\<rparr>,
                   CounterpartyLatestSettleWithHostTx :=
                     \<lparr>Tx = h, Signatures = [oursHost, SenderSettleWithHostSig payment]\<rparr>,
                   PendingPaymentTime := PaymentProposeMsg.PaymentTime payment,
                   RoundNumber := RoundNumber (C u) + 1,
                   State := PaymentAccepted\<rparr>) \<and>
           (detachedSig env h (Seed u) (Channel.Passphrase (C u)) (KeyIndex (C u))
              = Inl signErr \<longrightarrow>
              C (snd (handlePaymentProposeMsg env m u)) =
                c1\<lparr>PendingPaymentTime := PaymentProposeMsg.PaymentTime payment,
                   RoundNumber := RoundNumber (C u) + 1,
                   State := PaymentAccepted\<rparr>)))"
proof -
  have reach: "State (C u) = Open \<or> State (C u) = PaymentProposed
                 \<or> State (C u) = AwaitingPaymentMerge"
    using assms(3) by auto
  have pk: "Channel.Passphrase c1 = Channel.Passphrase (C u)" "KeyIndex c1 = KeyIndex (C u)"
    by (simp_all add: c1_def)
  show ?thesis
  proof (intro conjI impI; (elim conjE)?)
    assume s: "proposeSettleTxes env u (proposeCh2 (C u) payment) key payment = Inl res"
    from handlePaymentProposeMsg_settle [OF reach assms(4-7) s]
    show "handlePaymentProposeMsg env m u = res" .
    from proposeSettleTxes_Inl [of env u _ key payment "fst res" "snd res"] s
    show "fst res \<noteq> Ok" and "C (snd res) = C u"
      by simp_all
  next
    assume s: "proposeSettleTxes env u (proposeCh2 (C u) payment) key payment = Inr (g, h)"
      and v: "verifySig env h key (SenderSettleWithHostSig payment) = Some e"
    from reach assms(4-7) s v
    show "handlePaymentProposeMsg env m u = (Err (Wrap e ''settle with host tx''), u)"
      unfolding handlePaymentProposeMsg_def Let_def
      by (cases "Role (C u)") auto
  next
    assume s: "proposeSettleTxes env u (proposeCh2 (C u) payment) key payment = Inr (g, h)"
      and v: "verifySig env h key (SenderSettleWithHostSig payment) = None"
    note eq = handlePaymentProposeMsg_verified [OF reach assms(4-7) s v]
    {
      assume "PaymentProposeMsg.RoundNumber payment \<le> RoundNumber (C u)"
      with assms(3) show d: "handlePaymentProposeMsg env m u =
          (Ok, debugf ''dropped message: payment round %d for channel round %d'' u)"
        unfolding eq proposeCommit_def Let_def by auto
      show "C (snd (handlePaymentProposeMsg env m u)) = C u"
        by (simp add: d debugf_C)
    }
    {
      assume gt: "RoundNumber (C u) < PaymentProposeMsg.RoundNumber payment"
        and t1: "\<not> After (LedgerTime u)
              (Add (PaymentProposeMsg.PaymentTime payment) (MaxRoundDuration (C u)))"
        and t2: "\<not> Before (LedgerTime u)
              (Add (PaymentProposeMsg.PaymentTime payment) (- 1 * MaxRoundDuration (C u)))"
        and t3: "\<not> Before (PaymentProposeMsg.PaymentTime payment) (PaymentTime (C u))"
        and mg: "State (C u) = AwaitingPaymentMerge \<longrightarrow>
            PaymentAmount payment = PendingAmountReceived (C u) - PendingAmountSent (C u)"
      from gt have nle: "\<not> PaymentProposeMsg.RoundNumber payment \<le> RoundNumber (C u)"
        by auto
      from assms(3) nle t1 t2 t3 mg
      show run: "handlePaymentProposeMsg env m u
                   = transitionTo env PaymentAccepted (u\<lparr>C := c4\<rparr>)"
        unfolding eq proposeCommit_def Let_def c4_def c1_def
        by (auto simp: setCounterpartySettlementTxes_RoundNumber)
      show fin: "C (snd (handlePaymentProposeMsg env m u)) = c4\<lparr>State := PaymentAccepted\<rparr>"
        by (simp add: run transitionTo_C)
      {
        assume "detachedSig env h (Seed u) (Channel.Passphrase (C u)) (KeyIndex (C u))
              = Inr oursHost" and "g = None"
        then show "C (snd (handlePaymentProposeMsg env m u)) =
                c1\<lparr>CounterpartyLatestSettleWithGuestTx := None,
                   CounterpartyLatestSettleWithHostTx :=
                     \<lparr>Tx = h, Signatures = [oursHost, SenderSettleWithHostSig payment]\<rparr>,
                   PendingPaymentTime := PaymentProposeMsg.PaymentTime payment,
                   RoundNumber := RoundNumber (C u) + 1,
                   State := PaymentAccepted\<rparr>"
          by (simp add: fin c4_def setCounterpartySettlementTxes_def pk)
      }
      {
        assume "detachedSig env h (Seed u) (Channel.Passphrase (C u)) (KeyIndex (C u))
              = Inr oursHost" and "g = Some guestTx"
          and "detachedSig env guestTx (Seed u) (Channel.Passphrase (C u)) (KeyIndex (C u))
              = Inr oursGuest"
        then show "C (snd (handlePaymentProposeMsg env m u)) =
                c1\<lparr>CounterpartyLatestSettleWithGuestTx :=
                     Some \<lparr>Tx = guestTx,
                           Signatures = [oursGuest, SenderSettleWithGuestSig payment]\<rparr>,
                   CounterpartyLatestSettleWithHostTx :=
                     \<lparr>Tx = h, Signatures = [oursHost, SenderSettleWithHostSig payment]\<rparr>,
                   PendingPaymentTime := PaymentProposeMsg.PaymentTime payment,
                   RoundNumber := RoundNumber (C u) + 1,
                   State := PaymentAccepted\<rparr>"
          by (simp add: fin c4_def setCounterpartySettlementTxes_def pk)
      }
      {
        assume "detachedSig env h (Seed u) (Channel.Passphrase (C u)) (KeyIndex (C u))
              = Inl signErr"
        then show "C (snd (handlePaymentProposeMsg env m u)) =
                c1\<lparr>PendingPaymentTime := PaymentProposeMsg.PaymentTime payment,
                   RoundNumber := RoundNumber (C u) + 1,
                   State := PaymentAccepted\<rparr>"
          by (simp add: fin c4_def setCounterpartySettlementTxes_def pk)
      }
    }
  qed
qed

theorem handlePaymentProposeMsg_round_check_witness:
  "State (C upd0) = Open \<and> RoundNumber (C upd0) = 5 \<and>
   handlePaymentProposeMsg badSigEnv (proposeMsg 4 40) upd0 =
     (Err (Wrap (External ''signature verification failed'') ''settle with guest tx''), upd0) \<and>
   handlePaymentProposeMsg badHostSigEnv (proposeMsg 4 40) upd0 =
     (Err (Wrap (External ''bad host signature'') ''settle with host tx''), upd0) \<and>
   handlePaymentProposeMsg okEnv (proposeMsg 4 40) upd0 =
     (Ok, debugf ''dropped message: payment round %d for channel round %d'' upd0) \<and>
   handlePaymentProposeMsg okEnv (proposeMsg 5 40) upd0 =
     (Ok, debugf ''dropped message: payment round %d for channel round %d'' upd0) \<and>
   C (snd (handlePaymentProposeMsg okEnv (proposeMsg 5 40) upd0)) = C upd0 \<and>
   C (snd (handlePaymentProposeMsg okEnv (proposeMsg 6 40) upd0)) =
     (C upd0)\<lparr>PendingAmountReceived := 40,
               CounterpartyLatestSettleWithGuestTx :=
                 Some \<lparr>Tx = [4], Signatures = [\<lparr>Hint = 0, Signature = Some [4]\<rparr>, someSig]\<rparr>,
               CounterpartyLatestSettleWithHostTx :=
                 \<lparr>Tx = [3], Signatures = [\<lparr>Hint = 0, Signature = Some [3]\<rparr>, someSig]\<rparr>,
               PendingPaymentTime := 20,
               RoundNumber := 6,
               State := PaymentAccepted\<rparr> \<and>
   C (snd (handlePaymentProposeMsg okEnv (proposeMsg 6 40) noSeedUpd)) =
     (C noSeedUpd)\<lparr>PendingAmountReceived := 40, PendingPaymentTime := 20,
                    RoundNumber := 6, State := PaymentAccepted\<rparr>"
proof -
  define pay where "pay r = \<lparr>PaymentProposeMsg.RoundNumber = r, PaymentTime = 20,
      PaymentAmount = 40, SenderSettleWithGuestSig = someSig,
      SenderSettleWithHostSig = someSig\<rparr>" for r :: "64 word"
  define ours where "ours t = \<lparr>Hint = 0, Signature = Some t\<rparr>" for t :: bytes
  have st: "State (C upd0) = Open \<or> State (C upd0) = AwaitingPaymentMerge"
    and st': "State (C upd0) = Open" and rn: "RoundNumber (C upd0) = 5"
    and stn: "State (C noSeedUpd) = Open \<or> State (C noSeedUpd) = AwaitingPaymentMerge"
    and stn': "State (C noSeedUpd) = Open" and rnn: "RoundNumber (C noSeedUpd) = 5"
    by (simp_all add: example_defs)
  have msg: "PaymentProposeMsg (proposeMsg r 40) = Some (pay r)" for r
    by (simp add: pay_def example_defs)
  have nonneg: "0 \<le> sint (PaymentAmount (pay r))" for r
    by (simp add: pay_def)
  have bal: "sint (PaymentAmount (pay r))
           \<le> sint (case Role (C upd0) of Guest \<Rightarrow> HostAmount (C upd0)
                                      | Host \<Rightarrow> GuestAmount (C upd0))"
    and baln: "sint (PaymentAmount (pay r))
           \<le> sint (case Role (C noSeedUpd) of Guest \<Rightarrow> HostAmount (C noSeedUpd)
                                          | Host \<Rightarrow> GuestAmount (C noSeedUpd))" for r
    by (simp_all add: pay_def example_defs)
  have key: "keypair_Parse okEnv (case Role (C upd0) of Guest \<Rightarrow> EscrowAcct (C upd0)
                                             | Host \<Rightarrow> GuestAcct (C upd0)) = Inr ''GESCROW''"
    and keyb: "keypair_Parse badSigEnv (case Role (C upd0) of Guest \<Rightarrow> EscrowAcct (C upd0)
                                             | Host \<Rightarrow> GuestAcct (C upd0)) = Inr ''GESCROW''"
    and keyh: "keypair_Parse badHostSigEnv (case Role (C upd0) of Guest \<Rightarrow> EscrowAcct (C upd0)
                                             | Host \<Rightarrow> GuestAcct (C upd0)) = Inr ''GESCROW''"
    and keyn: "keypair_Parse okEnv (case Role (C noSeedUpd) of
                  Guest \<Rightarrow> EscrowAcct (C noSeedUpd)
                | Host \<Rightarrow> GuestAcct (C noSeedUpd)) = Inr ''GESCROW''"
    by (simp_all add: example_defs)
  note rc = handlePaymentProposeMsg_round_check
    [where oursHost = "ours [3]" and guestTx = "[4]" and oursGuest = "ours [4]"
       and signErr = errNoSeed]
  have txes: "proposeSettleTxes okEnv upd0 (proposeCh2 (C upd0) (pay r)) ''GESCROW'' (pay r)
                = Inr (Some [4], [3])"
    and txesh: "proposeSettleTxes badHostSigEnv upd0 (proposeCh2 (C upd0) (pay r)) ''GESCROW''
                  (pay r) = Inr (Some [4], [3])"
    and txesn: "proposeSettleTxes okEnv noSeedUpd (proposeCh2 (C noSeedUpd) (pay r)) ''GESCROW''
                  (pay r) = Inr (Some [4], [3])" for r
    by (simp_all add: proposeSettleTxes_def proposeCh2_def pay_def example_defs)
  have sig: "verifySig okEnv [3] ''GESCROW'' (SenderSettleWithHostSig (pay r)) = None" for r
    by (simp add: example_defs)
  have times: "\<not> After (LedgerTime upd0)
               (Add (PaymentProposeMsg.PaymentTime (pay 6)) (MaxRoundDuration (C upd0)))"
      "\<not> Before (LedgerTime upd0)
               (Add (PaymentProposeMsg.PaymentTime (pay 6)) (- 1 * MaxRoundDuration (C upd0)))"
      "\<not> Before (PaymentProposeMsg.PaymentTime (pay 6)) (PaymentTime (C upd0))"
    and timesn: "\<not> After (LedgerTime noSeedUpd)
               (Add (PaymentProposeMsg.PaymentTime (pay 6)) (MaxRoundDuration (C noSeedUpd)))"
      "\<not> Before (LedgerTime noSeedUpd)
               (Add (PaymentProposeMsg.PaymentTime (pay 6))
                  (- 1 * MaxRoundDuration (C noSeedUpd)))"
      "\<not> Before (PaymentProposeMsg.PaymentTime (pay 6)) (PaymentTime (C noSeedUpd))"
    by (simp_all add: After_def Before_def Add_def pay_def example_defs)
  have bad: "proposeSettleTxes badSigEnv upd0 (proposeCh2 (C upd0) (pay 4)) ''GESCROW'' (pay 4)
      = Inl (Err (Wrap (External ''signature verification failed'') ''settle with guest tx''),
             upd0)"
    by (simp add: proposeSettleTxes_def proposeCh2_def pay_def example_defs)
  have a: "handlePaymentProposeMsg badSigEnv (proposeMsg 4 40) upd0 =
     (Err (Wrap (External ''signature verification failed'') ''settle with guest tx''), upd0)"
    using rc [OF st msg nonneg bal keyb, THEN conjunct1, THEN mp, OF bad]
    by simp
  have hsig: "verifySig badHostSigEnv [3] ''GESCROW'' (SenderSettleWithHostSig (pay 4))
      = Some (External ''bad host signature'')"
    by (simp add: example_defs)
  have b: "handlePaymentProposeMsg badHostSigEnv (proposeMsg 4 40) upd0 =
     (Err (Wrap (External ''bad host signature'') ''settle with host tx''), upd0)"
    using rc [OF st msg nonneg bal keyh, THEN conjunct2, THEN conjunct1, THEN mp,
        OF conjI [OF txesh hsig]] .
  note ok = rc [OF st msg nonneg bal key, THEN conjunct2, THEN conjunct2, THEN mp,
        OF conjI [OF txes sig]]
  have c4: "handlePaymentProposeMsg okEnv (proposeMsg 4 40) upd0 =
     (Ok, debugf ''dropped message: payment round %d for channel round %d'' upd0)"
    using ok [of 4, THEN conjunct1] rn
    by (simp add: pay_def)
  have c5: "handlePaymentProposeMsg okEnv (proposeMsg 5 40) upd0 =
     (Ok, debugf ''dropped message: payment round %d for channel round %d'' upd0)"
    and c5': "C (snd (handlePaymentProposeMsg okEnv (proposeMsg 5 40) upd0)) = C upd0"
    using ok [of 5, THEN conjunct1] rn
    by (simp_all add: pay_def debugf_C)
  have sh: "detachedSig okEnv t (Seed upd0) (Channel.Passphrase (C upd0)) (KeyIndex (C upd0))
      = Inr (ours t)" for t
    by (simp add: ours_def example_defs)
  have d: "C (snd (handlePaymentProposeMsg okEnv (proposeMsg 6 40) upd0)) =
     (C upd0)\<lparr>PendingAmountReceived := 40,
               CounterpartyLatestSettleWithGuestTx :=
                 Some \<lparr>Tx = [4], Signatures = [\<lparr>Hint = 0, Signature = Some [4]\<rparr>, someSig]\<rparr>,
               CounterpartyLatestSettleWithHostTx :=
                 \<lparr>Tx = [3], Signatures = [\<lparr>Hint = 0, Signature = Some [3]\<rparr>, someSig]\<rparr>,
               PendingPaymentTime := 20,
               RoundNumber := 6,
               State := PaymentAccepted\<rparr>"
  proof -
    have hyp: "RoundNumber (C upd0) < PaymentProposeMsg.RoundNumber (pay 6) \<and>
         \<not> After (LedgerTime upd0)
              (Add (PaymentProposeMsg.PaymentTime (pay 6)) (MaxRoundDuration (C upd0))) \<and>
         \<not> Before (LedgerTime upd0)
              (Add (PaymentProposeMsg.PaymentTime (pay 6)) (- 1 * MaxRoundDuration (C upd0))) \<and>
         \<not> Before (PaymentProposeMsg.PaymentTime (pay 6)) (PaymentTime (C upd0)) \<and>
         (State (C upd0) = AwaitingPaymentMerge \<longrightarrow>
            PaymentAmount (pay 6) = PendingAmountReceived (C upd0) - PendingAmountSent (C upd0))"
      using rn st' times by (simp add: pay_def)
    note stored = ok [of 6, THEN conjunct2, THEN mp, OF hyp, THEN conjunct2, THEN conjunct2,
        THEN conjunct2, THEN conjunct1, THEN mp, OF conjI [OF sh conjI [OF refl sh]]]
    then show ?thesis
      using st' rn by (simp add: pay_def ours_def)
  qed
  have nosh: "detachedSig okEnv [3] (Seed noSeedUpd) (Channel.Passphrase (C noSeedUpd))
      (KeyIndex (C noSeedUpd)) = Inl errNoSeed"
    by (simp add: example_defs)
  have e: "C (snd (handlePaymentProposeMsg okEnv (proposeMsg 6 40) noSeedUpd)) =
     (C noSeedUpd)\<lparr>PendingAmountReceived := 40, PendingPaymentTime := 20,
                    RoundNumber := 6, State := PaymentAccepted\<rparr>"
  proof -
    have hyp: "RoundNumber (C noSeedUpd) < PaymentProposeMsg.RoundNumber (pay 6) \<and>
         \<not> After (LedgerTime noSeedUpd)
              (Add (PaymentProposeMsg.PaymentTime (pay 6)) (MaxRoundDuration (C noSeedUpd))) \<and>
         \<not> Before (LedgerTime noSeedUpd)
              (Add (PaymentProposeMsg.PaymentTime (pay 6))
                 (- 1 * MaxRoundDuration (C noSeedUpd))) \<and>
         \<not> Before (PaymentProposeMsg.PaymentTime (pay 6)) (PaymentTime (C noSeedUpd)) \<and>
         (State (C noSeedUpd) = AwaitingPaymentMerge \<longrightarrow>
            PaymentAmount (pay 6)
              = PendingAmountReceived (C noSeedUpd) - PendingAmountSent (C noSeedUpd))"
      using rnn stn' timesn by (simp add: pay_def)
    note unsigned = rc [OF stn msg nonneg baln keyn, THEN conjunct2, THEN conjunct2, THEN mp,
        OF conjI [OF txesn sig], of 6, THEN conjunct2, THEN mp, OF hyp, THEN conjunct2,
        THEN conjunct2, THEN conjunct2, THEN conjunct2, THEN mp, OF nosh]
    then show ?thesis
      using stn' rnn by (simp add: pay_def)
  qed
  from st' rn a b c4 c5 c5' d e show ?thesis
    by simp
qed




text \<open>
  C5. Balance conservation: a successful \<open>handlePaymentAcceptMsg\<close> and a successful
  \<open>handlePaymentCompleteMsg\<close> leave \<open>HostAmount + GuestAmount\<close> (the 64-bit sum the code
  computes) equal to its value before the call: what one balance gains the other loses.
\<close>

theorem payment_handlers_conserve_balance:
  "(handlePaymentAcceptMsg env m u = (Ok, u') \<longrightarrow>
      HostAmount (C u') + GuestAmount (C u') = HostAmount (C u) + GuestAmount (C u)) \<and>
   (handlePaymentCompleteMsg env m u = (Ok, u') \<longrightarrow>
      HostAmount (C u') + GuestAmount (C u') = HostAmount (C u) + GuestAmount (C u))"
proof (intro conjI impI)
  assume "handlePaymentAcceptMsg env m u = (Ok, u')"
  from handlePaymentAcceptMsg_Ok [OF this]
  show "HostAmount (C u') + GuestAmount (C u') = HostAmount (C u) + GuestAmount (C u)"
    by (cases "Role (C u)") auto
next
  assume "handlePaymentCompleteMsg env m u = (Ok, u')"
  from handlePaymentCompleteMsg_Ok [OF this]
  show "HostAmount (C u') + GuestAmount (C u') = HostAmount (C u) + GuestAmount (C u)"
    by (cases "Role (C u)") auto
qed

theorem payment_handlers_conserve_balance_witness:
  "fst (handlePaymentAcceptMsg okEnv acceptMsg0 proposedUpd) = Ok \<and>
   HostAmount (C (snd (handlePaymentAcceptMsg okEnv acceptMsg0 proposedUpd))) = 930 \<and>
   GuestAmount (C (snd (handlePaymentAcceptMsg okEnv acceptMsg0 proposedUpd))) = 70 \<and>
   HostAmount (C (snd (handlePaymentAcceptMsg okEnv acceptMsg0 proposedUpd)))
     + GuestAmount (C (snd (handlePaymentAcceptMsg okEnv acceptMsg0 proposedUpd)))
     = HostAmount (C proposedUpd) + GuestAmount (C proposedUpd) \<and>
   fst (handlePaymentCompleteMsg okEnv completeMsg0 acceptedUpd) = Ok \<and>
   HostAmount (C (snd (handlePaymentCompleteMsg okEnv completeMsg0 acceptedUpd))) = 850 \<and>
   GuestAmount (C (snd (handlePaymentCompleteMsg okEnv completeMsg0 acceptedUpd))) = 150 \<and>
   HostAmount (C (snd (handlePaymentCompleteMsg okEnv completeMsg0 acceptedUpd)))
     + GuestAmount (C (snd (handlePaymentCompleteMsg okEnv completeMsg0 acceptedUpd)))
     = HostAmount (C acceptedUpd) + GuestAmount (C acceptedUpd)"
proof -
  obtain ua where a: "handlePaymentAcceptMsg okEnv acceptMsg0 proposedUpd = (Ok, ua)"
    and a1: "HostAmount (C ua) = 930" and a2: "GuestAmount (C ua) = 70"
    by (simp add: handlePaymentAcceptMsg_def acceptGuestTx_def example_defs helper_defs)
  obtain uc where c: "handlePaymentCompleteMsg okEnv completeMsg0 acceptedUpd = (Ok, uc)"
    and c1: "HostAmount (C uc) = 850" and c2: "GuestAmount (C uc) = 150"
    by (simp add: handlePaymentCompleteMsg_def example_defs helper_defs)
  from payment_handlers_conserve_balance [of okEnv acceptMsg0 proposedUpd ua] a
  have "HostAmount (C ua) + GuestAmount (C ua)
          = HostAmount (C proposedUpd) + GuestAmount (C proposedUpd)"
    by simp
  moreover
  from payment_handlers_conserve_balance [of okEnv completeMsg0 acceptedUpd uc] c
  have "HostAmount (C uc) + GuestAmount (C uc)
          = HostAmount (C acceptedUpd) + GuestAmount (C acceptedUpd)"
    by simp
  ultimately show ?thesis
    using a c a1 a2 c1 c2 by simp
qed

text \<open>
  C6. A successful \<open>handlePaymentCompleteMsg\<close> was called in state \<open>PaymentAccepted\<close>. With
  \<open>delta = PendingAmountReceived - PendingAmountSent\<close>: for the guest, \<open>GuestAmount\<close> grows
  by \<open>delta\<close> and \<open>HostAmount\<close> shrinks by it; for the host the reverse. The current
  settlement transactions become the stored counterparty-latest ones, \<open>PaymentTime\<close>
  becomes \<open>PendingPaymentTime\<close>, both pending amounts become 0 and the state is \<open>Open\<close>.
\<close>

theorem handlePaymentCompleteMsg_effect:
  assumes "handlePaymentCompleteMsg env m u = (Ok, u')"
    and "delta = PendingAmountReceived (C u) - PendingAmountSent (C u)"
  shows "State (C u) = PaymentAccepted \<and>
         (Role (C u) = Guest \<longrightarrow>
            GuestAmount (C u') = GuestAmount (C u) + delta \<and>
            HostAmount (C u') = HostAmount (C u) - delta) \<and>
         (Role (C u) = Host \<longrightarrow>
            HostAmount (C u') = HostAmount (C u) + delta \<and>
            GuestAmount (C u') = GuestAmount (C u) - delta) \<and>
         CurrentSettleWithGuestTx (C u') = CounterpartyLatestSettleWithGuestTx (C u) \<and>
         CurrentSettleWithHostTx (C u') = CounterpartyLatestSettleWithHostTx (C u) \<and>
         PaymentTime (C u') = PendingPaymentTime (C u) \<and>
         PendingAmountSent (C u') = 0 \<and>
         PendingAmountReceived (C u') = 0 \<and>
         State (C u') = Open"
  using handlePaymentCompleteMsg_Ok [OF assms(1)] assms(2)
  by (cases "Role (C u)") auto

theorem handlePaymentCompleteMsg_effect_witness:
  "fst (handlePaymentCompleteMsg okEnv completeMsg0 acceptedUpd) = Ok \<and>
   State (C acceptedUpd) = PaymentAccepted \<and>
   Role (C acceptedUpd) = Guest \<and>
   GuestAmount (C (snd (handlePaymentCompleteMsg okEnv completeMsg0 acceptedUpd)))
     = GuestAmount (C acceptedUpd) + 50 \<and>
   HostAmount (C (snd (handlePaymentCompleteMsg okEnv completeMsg0 acceptedUpd)))
     = HostAmount (C acceptedUpd) - 50 \<and>
   PaymentTime (C (snd (handlePaymentCompleteMsg okEnv completeMsg0 acceptedUpd))) = 20 \<and>
   PendingAmountReceived (C (snd (handlePaymentCompleteMsg okEnv completeMsg0 acceptedUpd))) = 0 \<and>
   State (C (snd (handlePaymentCompleteMsg okEnv completeMsg0 acceptedUpd))) = Open"
proof -
  obtain uc where c: "handlePaymentCompleteMsg okEnv completeMsg0 acceptedUpd = (Ok, uc)"
    by (simp add: handlePaymentCompleteMsg_def example_defs helper_defs)
  have d: "(50 :: Amount) = PendingAmountReceived (C acceptedUpd) - PendingAmountSent (C acceptedUpd)"
    and r: "Role (C acceptedUpd) = Guest" and p: "PendingPaymentTime (C acceptedUpd) = 20"
    by (simp_all add: example_defs)
  from handlePaymentCompleteMsg_effect [OF c d] c r p show ?thesis
    by simp
qed

text \<open>
  C7. In \<open>handlePaymentAcceptMsg\<close> the settle-with-guest signature is a pointer, and the
  branch for a post-payment \<open>GuestAmount\<close> that is not 0 dereferences it (line 209) without
  the \<^verbatim>\<open>nil\<close> check that the branch for 0 makes (line 201). On an accept message that
  carries no settle-with-guest signature while the guest keeps a balance (here the guest
  sends 30 of its 100), the handler builds the settle-with-guest transaction and then
  panics, with the balances already moved: it verifies no signature and returns no
  error. The sibling \<open>handlePaymentProposeMsg\<close> does what the claim says on the same kind
  of message: the absent signature is handed to \<^verbatim>\<open>verifySig\<close> and its verdict comes
  back as the "settle with guest tx" error.
\<close>

theorem handlePaymentAcceptMsg_nil_guest_sig_panics:
  "PaymentAcceptMsg acceptMsgNoGuestSig =
     Some \<lparr>PaymentAcceptMsg.RoundNumber = 5, RecipientRatchetSig = someSig,
           RecipientSettleWithGuestSig = None, RecipientSettleWithHostSig = someSig\<rparr> \<and>
   GuestAmount (acceptCh1 (C proposedUpd)) = 70 \<and>
   handlePaymentAcceptMsg okEnv acceptMsgNoGuestSig proposedUpd
     = (Panic, proposedUpd\<lparr>C := (C proposedUpd)\<lparr>GuestAmount := 70, HostAmount := 930\<rparr>\<rparr>) \<and>
   handlePaymentAcceptMsg nilSigEnv acceptMsgNoGuestSig proposedUpd
     = (Panic, proposedUpd\<lparr>C := (C proposedUpd)\<lparr>GuestAmount := 70, HostAmount := 930\<rparr>\<rparr>) \<and>
   GuestAmount (proposeCh2 (C upd0)
       \<lparr>PaymentProposeMsg.RoundNumber = 6, PaymentTime = 20, PaymentAmount = 40,
        SenderSettleWithGuestSig = zeroSig, SenderSettleWithHostSig = someSig\<rparr>) = 140 \<and>
   handlePaymentProposeMsg nilSigEnv proposeMsgNoGuestSig upd0
     = (Err (Wrap (External ''no signature'') ''settle with guest tx''), upd0)"
  by (simp add: handlePaymentAcceptMsg_def acceptGuestTx_def handlePaymentProposeMsg_def
      proposeSettleTxes_def proposeCh2_def example_defs helper_defs)

text \<open>
  Around C7: the settle-with-guest step of the two handlers on every input. The step is
  reached once the earlier ones have passed (for \<open>handlePaymentProposeMsg\<close>: an accepted
  state, an amount within the counterparty's balance, a key that parses; for
  \<open>handlePaymentAcceptMsg\<close>: the key, the ratchet transaction and its signature, the
  settle-with-host transaction and its signature). With the payment applied:
  \<^item> when the guest's balance is 0, a present settle-with-guest signature makes the
    handler return \<open>ErrUnusedSettleWithGuestSig\<close>, and without one the handler goes on with
    the settle-only-with-host transaction alone;
  \<^item> when the guest's balance is not 0, the handler builds the settle-with-guest
    transaction for the new balances (an error of the builder is returned) and hands
    it, the counterparty's key and the message's signature to \<^verbatim>\<open>verifySig\<close>: an error
    of the verification is returned as "settle with guest tx"; when the signature
    verifies the handler goes on with that transaction and that signature, and what it
    returns is what the rest of it returns. The one input left is the \<^verbatim>\<open>nil\<close> pointer
    of \<open>handlePaymentAcceptMsg\<close>: a panic.
\<close>

lemma settle_with_guest_sig_steps:
  fixes env u m payment key ua ma accept keya ratchetTx hostTx
  defines "ch2 \<equiv> proposeCh2 (C u) payment"
  defines "rest \<equiv> (\<lambda>settleWithGuestTx settleWithHostTx.
             case verifySig env settleWithHostTx key (SenderSettleWithHostSig payment) of
               Some e \<Rightarrow> (Err (Wrap e ''settle with host tx''), u)
             | None \<Rightarrow> proposeCommit env u payment settleWithGuestTx settleWithHostTx)"
  defines "c1 \<equiv> acceptCh1 (C ua)"
  defines "resta \<equiv> (\<lambda>guestTx guestSig.
             case setLatestSettlementTxes env c1 guestTx hostTx guestSig
                    (RecipientSettleWithHostSig accept) (Seed ua) of
               (Some e, c2) \<Rightarrow> (Err e, ua\<lparr>C := c2\<rparr>)
             | (None, c2) \<Rightarrow>
                 (case signRatchetTx env c2 ratchetTx (RecipientRatchetSig accept) (Seed ua) of
                    (Some e, c3) \<Rightarrow> (Err e, ua\<lparr>C := c3\<rparr>)
                  | (None, c3) \<Rightarrow>
                      transitionTo env Open
                        (ua\<lparr>C := c3\<lparr>PaymentTime := PendingPaymentTime c3,
                                   PendingAmountReceived := 0,
                                   PendingAmountSent := 0\<rparr>\<rparr>)))"
  shows
  "((State (C u) = Open \<or> State (C u) = PaymentProposed \<or> State (C u) = AwaitingPaymentMerge) \<and>
    PaymentProposeMsg m = Some payment \<and>
    0 \<le> sint (PaymentAmount payment) \<and>
    sint (PaymentAmount payment)
      \<le> sint (case Role (C u) of Guest \<Rightarrow> HostAmount (C u) | Host \<Rightarrow> GuestAmount (C u)) \<and>
    keypair_Parse env (case Role (C u) of Guest \<Rightarrow> EscrowAcct (C u)
                                        | Host \<Rightarrow> GuestAcct (C u)) = Inr key
    \<longrightarrow>
      (GuestAmount ch2 = 0 \<and>
       DecoratedSignature.Signature (SenderSettleWithGuestSig payment) \<noteq> None \<longrightarrow>
         handlePaymentProposeMsg env m u =
           (Err ErrUnusedSettleWithGuestSig, debugf ''dropped message: %s'' u)) \<and>
      (GuestAmount ch2 = 0 \<and>
       DecoratedSignature.Signature (SenderSettleWithGuestSig payment) = None \<and>
       buildSettleOnlyWithHostTx env ch2 (PaymentProposeMsg.PaymentTime payment)
         = Inr settleWithHostTx \<longrightarrow>
         handlePaymentProposeMsg env m u = rest None settleWithHostTx) \<and>
      (GuestAmount ch2 \<noteq> 0 \<and>
       buildSettleWithGuestTx env ch2 (PaymentProposeMsg.PaymentTime payment) = Inl e \<longrightarrow>
         handlePaymentProposeMsg env m u =
           (Err e, debugf ''dropped message: error building SettleWithGuestTx %s'' u)) \<and>
      (GuestAmount ch2 \<noteq> 0 \<and>
       buildSettleWithGuestTx env ch2 (PaymentProposeMsg.PaymentTime payment) = Inr guestTx \<and>
       verifySig env guestTx key (SenderSettleWithGuestSig payment) = Some e \<longrightarrow>
         handlePaymentProposeMsg env m u = (Err (Wrap e ''settle with guest tx''), u)) \<and>
      (GuestAmount ch2 \<noteq> 0 \<and>
       buildSettleWithGuestTx env ch2 (PaymentProposeMsg.PaymentTime payment) = Inr guestTx \<and>
       verifySig env guestTx key (SenderSettleWithGuestSig payment) = None \<and>
       buildSettleWithHostTx env ch2 (PaymentProposeMsg.PaymentTime payment)
         = Inr settleWithHostTx \<longrightarrow>
         handlePaymentProposeMsg env m u = rest (Some guestTx) settleWithHostTx)) \<and>
   (keypair_Parse env (case Role (C ua) of Guest \<Rightarrow> EscrowAcct (C ua)
                                         | Host \<Rightarrow> GuestAcct (C ua)) = Inr keya \<and>
    buildRatchetTx env c1 (PendingPaymentTime (C ua))
      (case Role (C ua) of Guest \<Rightarrow> HostRatchetAcct (C ua) | Host \<Rightarrow> GuestRatchetAcct (C ua))
      (case Role (C ua) of Guest \<Rightarrow> HostRatchetAcctSeqNum (C ua)
                         | Host \<Rightarrow> GuestRatchetAcctSeqNum (C ua)) = Inr ratchetTx \<and>
    PaymentAcceptMsg ma = Some accept \<and>
    verifySig env ratchetTx keya (RecipientRatchetSig accept) = None \<and>
    (if GuestAmount c1 = 0
     then buildSettleOnlyWithHostTx env c1 (PendingPaymentTime (C ua))
     else buildSettleWithHostTx env c1 (PendingPaymentTime (C ua)))
      = Inr hostTx \<and>
    verifySig env hostTx keya (RecipientSettleWithHostSig accept) = None
    \<longrightarrow>
      (GuestAmount c1 = 0 \<and> RecipientSettleWithGuestSig accept \<noteq> None \<longrightarrow>
         handlePaymentAcceptMsg env ma ua =
           (Err ErrUnusedSettleWithGuestSig, ua\<lparr>C := c1\<rparr>)) \<and>
      (GuestAmount c1 = 0 \<and> RecipientSettleWithGuestSig accept = None \<longrightarrow>
         handlePaymentAcceptMsg env ma ua = resta None None) \<and>
      (GuestAmount c1 \<noteq> 0 \<and>
       buildSettleWithGuestTx env c1 (PendingPaymentTime (C ua)) = Inl ea \<longrightarrow>
         handlePaymentAcceptMsg env ma ua =
           (Err (Wrap ea ''building settle with guest tx''), ua\<lparr>C := c1\<rparr>)) \<and>
      (GuestAmount c1 \<noteq> 0 \<and>
       buildSettleWithGuestTx env c1 (PendingPaymentTime (C ua)) = Inr guestTxa \<and>
       RecipientSettleWithGuestSig accept = None \<longrightarrow>
         handlePaymentAcceptMsg env ma ua = (Panic, ua\<lparr>C := c1\<rparr>)) \<and>
      (GuestAmount c1 \<noteq> 0 \<and>
       buildSettleWithGuestTx env c1 (PendingPaymentTime (C ua)) = Inr guestTxa \<and>
       RecipientSettleWithGuestSig accept = Some sig \<and>
       verifySig env guestTxa keya sig = Some ea \<longrightarrow>
         handlePaymentAcceptMsg env ma ua =
           (Err (Wrap ea ''settle with guest tx''), ua\<lparr>C := c1\<rparr>)) \<and>
      (GuestAmount c1 \<noteq> 0 \<and>
       buildSettleWithGuestTx env c1 (PendingPaymentTime (C ua)) = Inr guestTxa \<and>
       RecipientSettleWithGuestSig accept = Some sig \<and>
       verifySig env guestTxa keya sig = None \<longrightarrow>
         handlePaymentAcceptMsg env ma ua = resta (Some guestTxa) (Some sig)))"
proof (intro conjI impI; (elim conjE)?)
  assume reach:
    "State (C u) = Open \<or> State (C u) = PaymentProposed \<or> State (C u) = AwaitingPaymentMerge"
    "PaymentProposeMsg m = Some payment"
    "0 \<le> sint (PaymentAmount payment)"
    "sint (PaymentAmount payment)
      \<le> sint (case Role (C u) of Guest \<Rightarrow> HostAmount (C u) | Host \<Rightarrow> GuestAmount (C u))"
    "keypair_Parse env (case Role (C u) of Guest \<Rightarrow> EscrowAcct (C u)
                                        | Host \<Rightarrow> GuestAcct (C u)) = Inr key"
  have step: "handlePaymentProposeMsg env m u =
      (case proposeSettleTxes env u ch2 key payment of
         Inl r \<Rightarrow> r
       | Inr (g, h) \<Rightarrow> rest g h)"
    using reach unfolding handlePaymentProposeMsg_def Let_def ch2_def rest_def
    by (cases "Role (C u)") (auto split: sum.splits)
  {
    assume "GuestAmount ch2 = 0"
      and "DecoratedSignature.Signature (SenderSettleWithGuestSig payment) \<noteq> None"
    then show "handlePaymentProposeMsg env m u =
           (Err ErrUnusedSettleWithGuestSig, debugf ''dropped message: %s'' u)"
      by (simp add: step proposeSettleTxes_def)
  }
  {
    assume "GuestAmount ch2 = 0"
      and "DecoratedSignature.Signature (SenderSettleWithGuestSig payment) = None"
      and "buildSettleOnlyWithHostTx env ch2 (PaymentProposeMsg.PaymentTime payment)
             = Inr settleWithHostTx"
    then show "handlePaymentProposeMsg env m u = rest None settleWithHostTx"
      by (simp add: step proposeSettleTxes_def)
  }
  {
    assume "GuestAmount ch2 \<noteq> 0"
      and "buildSettleWithGuestTx env ch2 (PaymentProposeMsg.PaymentTime payment) = Inl e"
    then show "handlePaymentProposeMsg env m u =
           (Err e, debugf ''dropped message: error building SettleWithGuestTx %s'' u)"
      by (simp add: step proposeSettleTxes_def)
  }
  {
    assume "GuestAmount ch2 \<noteq> 0"
      and "buildSettleWithGuestTx env ch2 (PaymentProposeMsg.PaymentTime payment)
             = Inr guestTx"
      and "verifySig env guestTx key (SenderSettleWithGuestSig payment) = Some e"
    then show "handlePaymentProposeMsg env m u = (Err (Wrap e ''settle with guest tx''), u)"
      by (simp add: step proposeSettleTxes_def)
  }
  {
    assume "GuestAmount ch2 \<noteq> 0"
      and "buildSettleWithGuestTx env ch2 (PaymentProposeMsg.PaymentTime payment)
             = Inr guestTx"
      and "verifySig env guestTx key (SenderSettleWithGuestSig payment) = None"
      and "buildSettleWithHostTx env ch2 (PaymentProposeMsg.PaymentTime payment)
             = Inr settleWithHostTx"
    then show "handlePaymentProposeMsg env m u = rest (Some guestTx) settleWithHostTx"
      by (simp add: step proposeSettleTxes_def)
  }
next
  assume reach:
    "keypair_Parse env (case Role (C ua) of Guest \<Rightarrow> EscrowAcct (C ua)
                                         | Host \<Rightarrow> GuestAcct (C ua)) = Inr keya"
    "buildRatchetTx env c1 (PendingPaymentTime (C ua))
      (case Role (C ua) of Guest \<Rightarrow> HostRatchetAcct (C ua) | Host \<Rightarrow> GuestRatchetAcct (C ua))
      (case Role (C ua) of Guest \<Rightarrow> HostRatchetAcctSeqNum (C ua)
                         | Host \<Rightarrow> GuestRatchetAcctSeqNum (C ua)) = Inr ratchetTx"
    "PaymentAcceptMsg ma = Some accept"
    "verifySig env ratchetTx keya (RecipientRatchetSig accept) = None"
    "(if GuestAmount c1 = 0
     then buildSettleOnlyWithHostTx env c1 (PendingPaymentTime (C ua))
     else buildSettleWithHostTx env c1 (PendingPaymentTime (C ua)))
      = Inr hostTx"
    "verifySig env hostTx keya (RecipientSettleWithHostSig accept) = None"
  have pt: "PendingPaymentTime c1 = PendingPaymentTime (C ua)"
    by (simp add: c1_def acceptCh1_def split: Role.splits)
  have step: "handlePaymentAcceptMsg env ma ua =
      (case acceptGuestTx env c1 keya accept of
         Inl r \<Rightarrow> (r, ua\<lparr>C := c1\<rparr>)
       | Inr (g, s) \<Rightarrow> resta g s)"
    using reach unfolding handlePaymentAcceptMsg_def Let_def c1_def [symmetric] resta_def
    by (cases "GuestAmount c1 = 0") (simp_all add: pt)
  {
    assume "GuestAmount c1 = 0" and "RecipientSettleWithGuestSig accept \<noteq> None"
    then show "handlePaymentAcceptMsg env ma ua =
           (Err ErrUnusedSettleWithGuestSig, ua\<lparr>C := c1\<rparr>)"
      by (simp add: step acceptGuestTx_def)
  }
  {
    assume "GuestAmount c1 = 0" and "RecipientSettleWithGuestSig accept = None"
    then show "handlePaymentAcceptMsg env ma ua = resta None None"
      by (simp add: step acceptGuestTx_def)
  }
  {
    assume "GuestAmount c1 \<noteq> 0"
      and "buildSettleWithGuestTx env c1 (PendingPaymentTime (C ua)) = Inl ea"
    then show "handlePaymentAcceptMsg env ma ua =
           (Err (Wrap ea ''building settle with guest tx''), ua\<lparr>C := c1\<rparr>)"
      by (simp add: step acceptGuestTx_def pt)
  }
  {
    assume "GuestAmount c1 \<noteq> 0"
      and "buildSettleWithGuestTx env c1 (PendingPaymentTime (C ua)) = Inr guestTxa"
      and "RecipientSettleWithGuestSig accept = None"
    then show "handlePaymentAcceptMsg env ma ua = (Panic, ua\<lparr>C := c1\<rparr>)"
      by (simp add: step acceptGuestTx_def pt)
  }
  {
    assume "GuestAmount c1 \<noteq> 0"
      and "buildSettleWithGuestTx env c1 (PendingPaymentTime (C ua)) = Inr guestTxa"
      and "RecipientSettleWithGuestSig accept = Some sig"
      and "verifySig env guestTxa keya sig = Some ea"
    then show "handlePaymentAcceptMsg env ma ua =
           (Err (Wrap ea ''settle with guest tx''), ua\<lparr>C := c1\<rparr>)"
      by (simp add: step acceptGuestTx_def pt)
  }
  {
    assume "GuestAmount c1 \<noteq> 0"
      and "buildSettleWithGuestTx env c1 (PendingPaymentTime (C ua)) = Inr guestTxa"
      and "RecipientSettleWithGuestSig accept = Some sig"
      and "verifySig env guestTxa keya sig = None"
    then show "handlePaymentAcceptMsg env ma ua = resta (Some guestTxa) (Some sig)"
      by (simp add: step acceptGuestTx_def pt)
  }
qed

lemma settle_with_guest_sig_examples:
  "GuestAmount (proposeCh2 (C hostUpd) \<lparr>PaymentProposeMsg.RoundNumber = 6, PaymentTime = 20,
      PaymentAmount = 100, SenderSettleWithGuestSig = someSig,
      SenderSettleWithHostSig = someSig\<rparr>) = 0 \<and>
   handlePaymentProposeMsg okEnv (proposeMsg 6 100) hostUpd =
     (Err ErrUnusedSettleWithGuestSig, debugf ''dropped message: %s'' hostUpd) \<and>
   handlePaymentProposeMsg badSigEnv (proposeMsg 6 40) upd0 =
     (Err (Wrap (External ''signature verification failed'') ''settle with guest tx''), upd0) \<and>
   GuestAmount (acceptCh1 (C proposedAllUpd)) = 0 \<and>
   handlePaymentAcceptMsg okEnv acceptMsg0 proposedAllUpd =
     (Err ErrUnusedSettleWithGuestSig, proposedAllUpd\<lparr>C := acceptCh1 (C proposedAllUpd)\<rparr>) \<and>
   GuestAmount (acceptCh1 (C proposedUpd)) = 70 \<and>
   handlePaymentAcceptMsg badGuestSigEnv acceptMsg0 proposedUpd =
     (Err (Wrap (External ''bad guest signature'') ''settle with guest tx''),
      proposedUpd\<lparr>C := acceptCh1 (C proposedUpd)\<rparr>) \<and>
   fst (handlePaymentAcceptMsg okEnv acceptMsg0 proposedUpd) = Ok \<and>
   CurrentSettleWithGuestTx (C (snd (handlePaymentAcceptMsg okEnv acceptMsg0 proposedUpd))) =
     Some \<lparr>Tx = [4], Signatures = [\<lparr>Hint = 0, Signature = Some [4]\<rparr>, someSig]\<rparr>"
  by (simp add: handlePaymentAcceptMsg_def acceptGuestTx_def handlePaymentProposeMsg_def
      proposeSettleTxes_def proposeCh2_def example_defs helper_defs)

text \<open>
  C8. Every message a constructor returns carries \<open>MsgNum = LastMsgIndex + 1\<close> (of the
  channel it was built from, in \<^verbatim>\<open>uint64\<close> arithmetic) and \<open>Version = 2\<close>: the six
  composite literals set both, and \<open>signMsg\<close> changes the signature only.
\<close>

theorem created_messages_numbered:
  "(createChannelProposeMsg env seed ch h = (Some m, r) \<longrightarrow>
      MsgNum m = LastMsgIndex ch + 1 \<and> Version m = 2) \<and>
   (createChannelAcceptMsg env seed ch ledgerTime = (Some m, r) \<longrightarrow>
      MsgNum m = LastMsgIndex ch + 1 \<and> Version m = 2) \<and>
   (createPaymentProposeMsg env seed ch = (Some m, r) \<longrightarrow>
      MsgNum m = LastMsgIndex ch + 1 \<and> Version m = 2) \<and>
   (createPaymentAcceptMsg env seed ch = (Some m, r) \<longrightarrow>
      MsgNum m = LastMsgIndex ch + 1 \<and> Version m = 2) \<and>
   (createPaymentCompleteMsg env seed ch = (Some m, r) \<longrightarrow>
      MsgNum m = LastMsgIndex ch + 1 \<and> Version m = 2) \<and>
   (createCloseMsg env seed ch = (Some m, r) \<longrightarrow>
      MsgNum m = LastMsgIndex ch + 1 \<and> Version m = 2)"
proof (intro conjI impI)
  assume "createChannelProposeMsg env seed ch h = (Some m, r)"
  then show "MsgNum m = LastMsgIndex ch + 1" and "Version m = 2"
    by (auto simp: createChannelProposeMsg_def version_def dest!: signMsg_Some)
next
  assume "createChannelAcceptMsg env seed ch ledgerTime = (Some m, r)"
  then show "MsgNum m = LastMsgIndex ch + 1" and "Version m = 2"
    by (auto simp: createChannelAcceptMsg_def version_def dest!: signMsg_Some
        split: sum.splits)
next
  assume "createPaymentProposeMsg env seed ch = (Some m, r)"
  then show "MsgNum m = LastMsgIndex ch + 1" and "Version m = 2"
    by (auto simp: createPaymentProposeMsg_def Let_def version_def dest!: signMsg_Some
        split: sum.splits prod.splits)
next
  assume "createPaymentAcceptMsg env seed ch = (Some m, r)"
  then show "MsgNum m = LastMsgIndex ch + 1" and "Version m = 2"
    by (auto simp: createPaymentAcceptMsg_def Let_def version_def dest!: signMsg_Some
        split: sum.splits)
next
  assume "createPaymentCompleteMsg env seed ch = (Some m, r)"
  then show "MsgNum m = LastMsgIndex ch + 1" and "Version m = 2"
    by (auto simp: createPaymentCompleteMsg_def Let_def version_def dest!: signMsg_Some
        split: sum.splits)
next
  assume "createCloseMsg env seed ch = (Some m, r)"
  then show "MsgNum m = LastMsgIndex ch + 1" and "Version m = 2"
    by (auto simp: createCloseMsg_def version_def dest!: signMsg_Some split: sum.splits)
qed

theorem created_messages_numbered_witness:
  "LastMsgIndex storedChan = 4 \<and>
   (\<exists>m. createChannelProposeMsg okEnv (Some [1]) storedChan \<lparr>Seqnum = 3\<rparr> = (Some m, Ok)
        \<and> MsgNum m = 5 \<and> Version m = 2) \<and>
   (\<exists>m. createChannelAcceptMsg okEnv (Some [1]) storedChan 25 = (Some m, Ok)
        \<and> MsgNum m = 5 \<and> Version m = 2) \<and>
   (\<exists>m. createPaymentProposeMsg okEnv (Some [1]) storedChan = (Some m, Ok)
        \<and> MsgNum m = 5 \<and> Version m = 2) \<and>
   (\<exists>m. createPaymentAcceptMsg okEnv (Some [1]) storedChan = (Some m, Ok)
        \<and> MsgNum m = 5 \<and> Version m = 2) \<and>
   (\<exists>m. createPaymentCompleteMsg okEnv (Some [1]) storedChan = (Some m, Ok)
        \<and> MsgNum m = 5 \<and> Version m = 2) \<and>
   (\<exists>m. createCloseMsg okEnv (Some [1]) storedChan = (Some m, Ok)
        \<and> MsgNum m = 5 \<and> Version m = 2)"
proof -
  have l: "LastMsgIndex storedChan = 4"
    by (simp add: example_defs)
  obtain m1 where m1:
    "createChannelProposeMsg okEnv (Some [1]) storedChan \<lparr>Seqnum = 3\<rparr> = (Some m1, Ok)"
    by (simp add: createChannelProposeMsg_def signMsg_def bytesToSign_def okEnv_def)
  obtain m2 where m2: "createChannelAcceptMsg okEnv (Some [1]) storedChan 25 = (Some m2, Ok)"
    by (simp add: createChannelAcceptMsg_def signMsg_def bytesToSign_def okEnv_def)
  obtain m3 where m3: "createPaymentProposeMsg okEnv (Some [1]) storedChan = (Some m3, Ok)"
    by (simp add: createPaymentProposeMsg_def proposeSigs_def signMsg_def bytesToSign_def
        example_defs Let_def)
  obtain m4 where m4: "createPaymentAcceptMsg okEnv (Some [1]) storedChan = (Some m4, Ok)"
    by (simp add: createPaymentAcceptMsg_def acceptGuestSig_def signMsg_def bytesToSign_def
        example_defs Let_def)
  obtain m5 where m5: "createPaymentCompleteMsg okEnv (Some [1]) storedChan = (Some m5, Ok)"
    by (simp add: createPaymentCompleteMsg_def signMsg_def bytesToSign_def okEnv_def Let_def)
  obtain m6 where m6: "createCloseMsg okEnv (Some [1]) storedChan = (Some m6, Ok)"
    by (simp add: createCloseMsg_def signMsg_def bytesToSign_def okEnv_def)
  note n = created_messages_numbered
  from n [of okEnv "Some [1]" storedChan "\<lparr>Seqnum = 3\<rparr>" m1 Ok] m1 l
  have "MsgNum m1 = 5 \<and> Version m1 = 2" by simp
  moreover
  from n [of okEnv "Some [1]" storedChan _ m2 Ok 25] m2 l
  have "MsgNum m2 = 5 \<and> Version m2 = 2" by simp
  moreover
  from n [of okEnv "Some [1]" storedChan _ m3 Ok] m3 l
  have "MsgNum m3 = 5 \<and> Version m3 = 2" by simp
  moreover
  from n [of okEnv "Some [1]" storedChan _ m4 Ok] m4 l
  have "MsgNum m4 = 5 \<and> Version m4 = 2" by simp
  moreover
  from n [of okEnv "Some [1]" storedChan _ m5 Ok] m5 l
  have "MsgNum m5 = 5 \<and> Version m5 = 2" by simp
  moreover
  from n [of okEnv "Some [1]" storedChan _ m6 Ok] m6 l
  have "MsgNum m6 = 5 \<and> Version m6 = 2" by simp
  ultimately show ?thesis
    using l m1 m2 m3 m4 m5 m6 by blast
qed

text \<open>
  C9. A successful \<open>handleChannelProposeMsg\<close> (state \<open>Start\<close>, the proposal's guest account
  equal to the channel's) replaces the channel record. Of the record it found exactly
  \<open>GuestAcct\<close>, \<open>BaseSequenceNumber\<close>, \<open>HostRatchetAcctSeqNum\<close>, \<open>GuestRatchetAcctSeqNum\<close> and
  \<open>CounterpartyAddress\<close> are kept. \<open>ID\<close> and \<open>EscrowAcct\<close> come from the message's
  \<open>ChannelID\<close>; the other fields the handler populates come from the proposal
  (\<open>HostAmount\<close>, the two durations, \<open>FundingTime\<close> also as \<open>PaymentTime\<close>, \<open>HostAcct\<close>, the
  two ratchet accounts, the fee rate) or are what the handler sets for a fresh guest
  channel (\<open>Role = Guest\<close>, \<open>RoundNumber = 1\<close>, the primary key index, the updater's
  passphrase, and the state \<open>AwaitingFunding\<close> it transitions to). Every other field is
  zero: \<open>GuestAmount\<close>, \<open>LastMsgIndex\<close>, both pending amounts, the pending payment time, the
  funding sequence number and every stored signature and transaction.
\<close>

theorem handleChannelProposeMsg_replaces_channel:
  assumes "handleChannelProposeMsg env m u = (Ok, u')"
    and "ChannelProposeMsg m = Some propose"
    and "ChannelProposeMsg.GuestAcct propose = GuestAcct (C u)"
  shows "State (C u) = Start \<and>
         (\<exists>escrowAcct.
            SetAddress env (ChannelID m) = Inr escrowAcct \<and>
            C u' =
              \<lparr>ID = ChannelID m,
               Role = Guest,
               State = AwaitingFunding,
               HostAmount = ChannelProposeMsg.HostAmount propose,
               GuestAmount = 0,
               ChannelFeerate = Feerate propose,
               MaxRoundDuration = ChannelProposeMsg.MaxRoundDuration propose,
               FinalityDelay = ChannelProposeMsg.FinalityDelay propose,
               FundingTime = ChannelProposeMsg.FundingTime propose,
               PaymentTime = ChannelProposeMsg.FundingTime propose,
               PendingPaymentTime = 0,
               HostAcct = ChannelProposeMsg.HostAcct propose,
               GuestAcct = GuestAcct (C u),
               EscrowAcct = escrowAcct,
               HostRatchetAcct = ChannelProposeMsg.HostRatchetAcct propose,
               GuestRatchetAcct = ChannelProposeMsg.GuestRatchetAcct propose,
               RoundNumber = 1,
               BaseSequenceNumber = BaseSequenceNumber (C u),
               HostRatchetAcctSeqNum = HostRatchetAcctSeqNum (C u),
               GuestRatchetAcctSeqNum = GuestRatchetAcctSeqNum (C u),
               FundingTxSeqnum = 0,
               KeyIndex = PrimaryAccountIndex env,
               Passphrase = Updater.Passphrase u,
               CounterpartyAddress = CounterpartyAddress (C u),
               PendingAmountSent = 0,
               PendingAmountReceived = 0,
               CurrentRatchetTx = zeroEnvelope,
               CurrentSettleWithGuestTx = None,
               CurrentSettleWithHostTx = zeroEnvelope,
               CounterpartyLatestSettleWithGuestTx = None,
               CounterpartyLatestSettleWithHostTx = zeroEnvelope,
               CounterpartyCoopCloseSig = zeroSig,
               LastMsgIndex = 0\<rparr>)"
  using assms unfolding handleChannelProposeMsg_def Let_def
  by (auto simp: zeroChannel_def split: if_splits sum.splits dest!: transitionTo_result)

theorem handleChannelProposeMsg_replaces_channel_witness:
  "State (C startUpd) = Start \<and>
   GuestAmount (C startUpd) = 12 \<and> LastMsgIndex (C startUpd) = 15 \<and>
   PendingAmountSent (C startUpd) = 13 \<and> CounterpartyCoopCloseSig (C startUpd) = someSig \<and>
   fst (handleChannelProposeMsg okEnv channelProposeMsg0 startUpd) = Ok \<and>
   C (snd (handleChannelProposeMsg okEnv channelProposeMsg0 startUpd)) =
     zeroChannel
       \<lparr>ID := ''GESCROW'', Role := Guest, State := AwaitingFunding, HostAmount := 1000,
        ChannelFeerate := 1, MaxRoundDuration := 60, FinalityDelay := 120,
        FundingTime := 5, PaymentTime := 5, HostAcct := ''GHOST'', GuestAcct := ''GGUEST'',
        EscrowAcct := ''GESCROW'', HostRatchetAcct := ''GHR'', GuestRatchetAcct := ''GGR'',
        RoundNumber := 1, BaseSequenceNumber := 77, HostRatchetAcctSeqNum := 78,
        GuestRatchetAcctSeqNum := 79, KeyIndex := 0,
        Channel.Passphrase := ''Test Network'', CounterpartyAddress := ''peer.example''\<rparr>"
proof -
  define cpm where "cpm = \<lparr>ChannelProposeMsg.HostAcct = ''GHOST'', GuestAcct = ''GGUEST'',
              HostRatchetAcct = ''GHR'', GuestRatchetAcct = ''GGR'', MaxRoundDuration = 60,
              FinalityDelay = 120, BaseSequenceNumber = 1000, HostAmount = 1000,
              Feerate = 1, FundingTime = 5\<rparr>"
  obtain u' where run: "handleChannelProposeMsg okEnv channelProposeMsg0 startUpd = (Ok, u')"
    by (simp add: handleChannelProposeMsg_def example_defs helper_defs)
  have msg: "ChannelProposeMsg channelProposeMsg0 = Some cpm"
    and acct: "ChannelProposeMsg.GuestAcct cpm = GuestAcct (C startUpd)"
    by (simp_all add: cpm_def example_defs)
  have before: "GuestAmount (C startUpd) = 12" "LastMsgIndex (C startUpd) = 15"
    "PendingAmountSent (C startUpd) = 13" "CounterpartyCoopCloseSig (C startUpd) = someSig"
    by (simp_all add: example_defs)
  from handleChannelProposeMsg_replaces_channel [OF run msg acct]
  have "State (C startUpd) = Start" and "C u' =
     zeroChannel
       \<lparr>ID := ''GESCROW'', Role := Guest, State := AwaitingFunding, HostAmount := 1000,
        ChannelFeerate := 1, MaxRoundDuration := 60, FinalityDelay := 120,
        FundingTime := 5, PaymentTime := 5, HostAcct := ''GHOST'', GuestAcct := ''GGUEST'',
        EscrowAcct := ''GESCROW'', HostRatchetAcct := ''GHR'', GuestRatchetAcct := ''GGR'',
        RoundNumber := 1, BaseSequenceNumber := 77, HostRatchetAcctSeqNum := 78,
        GuestRatchetAcctSeqNum := 79, KeyIndex := 0,
        Channel.Passphrase := ''Test Network'', CounterpartyAddress := ''peer.example''\<rparr>"
    by (auto simp: cpm_def example_defs)
  with run before show ?thesis
    by simp
qed


text \<open>
  C10. A successful \<open>handleCloseMsg\<close> was called in one of the states \<open>Open\<close>,
  \<open>PaymentProposed\<close>, \<open>AwaitingClose\<close>, on a message whose cooperative-close signature
  verified against the counterparty's key, and the channel it leaves differs from the
  channel it found in two fields only: \<open>CounterpartyCoopCloseSig\<close> is the message's
  signature and \<open>State\<close> is \<open>AwaitingClose\<close>. The balances, the round number, the pending
  amounts and times and the stored settlement transactions are as they were.
\<close>

theorem handleCloseMsg_frame:
  assumes "handleCloseMsg env m u = (Ok, u')"
  shows "\<exists>close key tx.
           CloseMsg m = Some close \<and>
           keypair_Parse env (case Role (C u) of Guest \<Rightarrow> EscrowAcct (C u)
                                              | Host \<Rightarrow> GuestAcct (C u)) = Inr key \<and>
           buildCooperativeCloseTx env (C u) = Inr tx \<and>
           verifySig env tx key (CooperativeCloseSig close) = None \<and>
           State (C u) \<in> {Open, PaymentProposed, AwaitingClose} \<and>
           C u' = (C u)\<lparr>CounterpartyCoopCloseSig := CooperativeCloseSig close,
                        State := AwaitingClose\<rparr> \<and>
           HostAmount (C u') = HostAmount (C u) \<and>
           GuestAmount (C u') = GuestAmount (C u) \<and>
           RoundNumber (C u') = RoundNumber (C u) \<and>
           PendingAmountSent (C u') = PendingAmountSent (C u) \<and>
           PendingAmountReceived (C u') = PendingAmountReceived (C u) \<and>
           PendingPaymentTime (C u') = PendingPaymentTime (C u) \<and>
           PaymentTime (C u') = PaymentTime (C u) \<and>
           CurrentSettleWithGuestTx (C u') = CurrentSettleWithGuestTx (C u) \<and>
           CurrentSettleWithHostTx (C u') = CurrentSettleWithHostTx (C u) \<and>
           CounterpartyLatestSettleWithGuestTx (C u') =
             CounterpartyLatestSettleWithGuestTx (C u) \<and>
           CounterpartyLatestSettleWithHostTx (C u') =
             CounterpartyLatestSettleWithHostTx (C u)"
  using assms
  by (auto simp: handleCloseMsg_def Let_def dest!: transitionTo_result
      split: if_splits sum.splits option.splits)

theorem handleCloseMsg_frame_witness:
  "handleCloseMsg okEnv closeMsg0 upd0 =
     (Ok, upd0\<lparr>C := chan0\<lparr>CounterpartyCoopCloseSig := someSig, State := AwaitingClose\<rparr>\<rparr>) \<and>
   (\<exists>close key tx.
      CloseMsg closeMsg0 = Some close \<and>
      keypair_Parse okEnv (case Role (C upd0) of Guest \<Rightarrow> EscrowAcct (C upd0)
                                              | Host \<Rightarrow> GuestAcct (C upd0)) = Inr key \<and>
      buildCooperativeCloseTx okEnv (C upd0) = Inr tx \<and>
      verifySig okEnv tx key (CooperativeCloseSig close) = None \<and>
      State (C upd0) \<in> {Open, PaymentProposed, AwaitingClose} \<and>
      HostAmount (C upd0) = 900 \<and> GuestAmount (C upd0) = 100)"
proof -
  have run: "handleCloseMsg okEnv closeMsg0 upd0 =
     (Ok, upd0\<lparr>C := chan0\<lparr>CounterpartyCoopCloseSig := someSig, State := AwaitingClose\<rparr>\<rparr>)"
    by (simp add: handleCloseMsg_def example_defs helper_defs)
  from handleCloseMsg_frame [OF run] run show ?thesis
    by (auto simp: example_defs)
qed



end
